theory Spec2Isabelle
  imports Main "HOL-Library.Sublist"
begin

section \<open>Go strings\<close>

text \<open>
  A Go string is a sequence of bytes; \<^typ>\<open>string\<close> (a list of 8-bit characters) is the
  same thing. The functions of package \<open>strings\<close> that the proxy calls are written out here
  with Go's names.
\<close>

text \<open>\<open>strings.Cut\<close>: the text before and after the first occurrence of \<open>sep\<close>.\<close>

fun Cut :: "string \<Rightarrow> string \<Rightarrow> (string \<times> string) option" where
  "Cut [] sep = (if sep = [] then Some ([], []) else None)"
| "Cut (c # cs) sep =
     (if prefix sep (c # cs) then Some ([], drop (length sep) (c # cs))
      else (case Cut cs sep of None \<Rightarrow> None | Some (a, b) \<Rightarrow> Some (c # a, b)))"

definition Contains :: "string \<Rightarrow> string \<Rightarrow> bool" where
  "Contains s sub = (Cut s sub \<noteq> None)"

definition HasPrefix :: "string \<Rightarrow> string \<Rightarrow> bool" where
  "HasPrefix s p = prefix p s"

definition TrimPrefix :: "string \<Rightarrow> string \<Rightarrow> string" where
  "TrimPrefix s p = (if HasPrefix s p then drop (length p) s else s)"

definition HasSuffix :: "string \<Rightarrow> string \<Rightarrow> bool" where
  "HasSuffix s p = suffix p s"

definition TrimSuffix :: "string \<Rightarrow> string \<Rightarrow> string" where
  "TrimSuffix s p = (if HasSuffix s p then take (length s - length p) s else s)"

text \<open>
  \<open>strings.SplitN(s, sep, n)\<close> for a non-empty separator and \<open>n \<ge> 0\<close>: at most \<open>n\<close>
  pieces, the last one the unsplit remainder; \<open>n = 0\<close> gives no piece at all.
\<close>

fun SplitN :: "string \<Rightarrow> string \<Rightarrow> nat \<Rightarrow> string list" where
  "SplitN s sep 0 = []"
| "SplitN s sep (Suc 0) = [s]"
| "SplitN s sep (Suc (Suc n)) =
     (case Cut s sep of
        None \<Rightarrow> [s]
      | Some (a, rest) \<Rightarrow> a # SplitN rest sep (Suc n))"

text \<open>
  \<open>strings.Split(s, sep)\<close> is \<open>SplitN\<close> with no bound; Go computes the bound as the number
  of separators plus one and caps it at \<open>len(s) + 1\<close>, which is the bound used here.
\<close>

definition Split :: "string \<Rightarrow> string \<Rightarrow> string list" where
  "Split s sep = SplitN s sep (Suc (length s))"

fun Join :: "string list \<Rightarrow> string \<Rightarrow> string" where
  "Join [] sep = []"
| "Join [x] sep = x"
| "Join (x # y # ys) sep = x @ sep @ Join (y # ys) sep"

text \<open>
  \<open>strings.TrimSpace\<close> removes leading and trailing Unicode white space. On the bytes of
  the string that is: the six ASCII space characters, and the UTF-8 encodings of U+0085,
  U+00A0, U+1680, U+2000 to U+200A, U+2028, U+2029, U+202F, U+205F and U+3000.
\<close>

definition spaceSeqs :: "string list" where
  "spaceSeqs =
     [[CHR 0x09], [CHR 0x0A], [CHR 0x0B], [CHR 0x0C], [CHR 0x0D], [CHR 0x20],
      [CHR 0xC2, CHR 0x85], [CHR 0xC2, CHR 0xA0],
      [CHR 0xE1, CHR 0x9A, CHR 0x80],
      [CHR 0xE2, CHR 0x80, CHR 0x80], [CHR 0xE2, CHR 0x80, CHR 0x81],
      [CHR 0xE2, CHR 0x80, CHR 0x82], [CHR 0xE2, CHR 0x80, CHR 0x83],
      [CHR 0xE2, CHR 0x80, CHR 0x84], [CHR 0xE2, CHR 0x80, CHR 0x85],
      [CHR 0xE2, CHR 0x80, CHR 0x86], [CHR 0xE2, CHR 0x80, CHR 0x87],
      [CHR 0xE2, CHR 0x80, CHR 0x88], [CHR 0xE2, CHR 0x80, CHR 0x89],
      [CHR 0xE2, CHR 0x80, CHR 0x8A],
      [CHR 0xE2, CHR 0x80, CHR 0xA8], [CHR 0xE2, CHR 0x80, CHR 0xA9],
      [CHR 0xE2, CHR 0x80, CHR 0xAF], [CHR 0xE2, CHR 0x81, CHR 0x9F],
      [CHR 0xE3, CHR 0x80, CHR 0x80]]"

text \<open>The length of the white-space rune a string starts with, 0 when it starts with none.\<close>

definition leadingSpace :: "string \<Rightarrow> nat" where
  "leadingSpace s = (case List.find (\<lambda>q. prefix q s) spaceSeqs of None \<Rightarrow> 0 | Some q \<Rightarrow> length q)"

definition trailingSpace :: "string \<Rightarrow> nat" where
  "trailingSpace s = (case List.find (\<lambda>q. suffix q s) spaceSeqs of None \<Rightarrow> 0 | Some q \<Rightarrow> length q)"

text \<open>
  Each step removes one white-space rune; the counter bounds the number of steps by the
  length of the string.
\<close>

fun trimLeftN :: "nat \<Rightarrow> string \<Rightarrow> string" where
  "trimLeftN 0 s = s"
| "trimLeftN (Suc n) s = (if leadingSpace s = 0 then s else trimLeftN n (drop (leadingSpace s) s))"

fun trimRightN :: "nat \<Rightarrow> string \<Rightarrow> string" where
  "trimRightN 0 s = s"
| "trimRightN (Suc n) s =
     (if trailingSpace s = 0 then s else trimRightN n (take (length s - trailingSpace s) s))"

definition TrimSpace :: "string \<Rightarrow> string" where
  "TrimSpace s = (let t = trimLeftN (length s) s in trimRightN (length t) t)"

section \<open>pkg/auth/config.go: the locator carried in the username\<close>

datatype parse_error = ErrInvalidUsernameFormat | ErrUnsupportedRegistryType

record RegistryConfig =
  Type :: string
  VaultPath :: string
  RegistryURL :: string

record Credentials =
  Username :: string
  Password :: string
  Email :: string

definition isValidRegistryType :: "string \<Rightarrow> bool" where
  "isValidRegistryType registryType =
     (case map_of [(''docker'', True), (''ecr'', True), (''gcr'', True)] registryType of
        None \<Rightarrow> False
      | Some b \<Rightarrow> b)"

definition ParseUsername :: "string \<Rightarrow> parse_error + RegistryConfig" where
  "ParseUsername username =
     (let parts = SplitN username '';'' 3 in
      if length parts \<noteq> 3 then Inl ErrInvalidUsernameFormat
      else
        let registryType = TrimSpace (parts ! 0);
            vaultPath = TrimSpace (parts ! 1);
            registryURL = TrimSpace (parts ! 2)
        in if registryType = [] \<or> vaultPath = [] \<or> registryURL = []
           then Inl ErrInvalidUsernameFormat
           else if \<not> isValidRegistryType registryType then Inl ErrUnsupportedRegistryType
           else Inr \<lparr>Type = registryType, VaultPath = vaultPath, RegistryURL = registryURL\<rparr>)"

definition parse_error_text :: "parse_error \<Rightarrow> string" where
  "parse_error_text e =
     (case e of
        ErrInvalidUsernameFormat \<Rightarrow>
          ''invalid username format, expected: <registry_type>;<vault_path>;<registry_url>''
      | ErrUnsupportedRegistryType \<Rightarrow> ''unsupported registry type'')"

text \<open>The per-request authentication contexts (\<open>AuthHeader\<close> and \<open>BearerAuth\<close>).\<close>

record AuthHeader =
  auth_Username :: string
  auth_Password :: string

record BearerAuth =
  bearer_Token :: string
  bearer_RegistryURL :: string

section \<open>Collaborators outside the repository\<close>

text \<open>
  An \<open>http.Header\<close> is a map from (canonical) header names to lists of values.
  \<open>Header.Get\<close> returns the first value, or the empty string.
\<close>

type_synonym Header = "string \<rightharpoonup> string list"

definition HeaderGet :: "Header \<Rightarrow> string \<Rightarrow> string" where
  "HeaderGet h key = (case h key of None \<Rightarrow> [] | Some [] \<Rightarrow> [] | Some (v # _) \<Rightarrow> v)"

text \<open>A value stored in a secret: Go's \<open>interface{}\<close>, either a string or something else.\<close>

datatype secret_value = VString string | VOther

text \<open>The request the proxy sends upstream and what comes back.\<close>

record ProxyReq =
  pr_Method :: string
  pr_URL :: string
  pr_Header :: Header
  pr_Body :: string

text \<open>
  \<open>CopyErr\<close> is the error, if any, that ends the streaming of the upstream body after
  the bytes \<open>RespBody\<close> were delivered.
\<close>

record UpstreamResp =
  StatusCode :: nat
  RespHeader :: Header
  RespBody :: string
  CopyErr :: "string option"

text \<open>
  Library and network behaviour the proxy relies on, taken as parameters:
  \<^item> \<open>sha256\<close>: the SHA-256 digest of a byte string;
  \<^item> \<open>parseBasicAuth\<close>: net/http's decoding of a Basic \<open>Authorization\<close> value into
    username and password;
  \<^item> \<open>readCookie\<close>: net/http's lookup of a named cookie in the request headers;
  \<^item> \<open>kvGet token path\<close>: the KV v2 read of the secret store under a token: an error
    text, no secret (\<open>nil\<close>), a secret without data, or a secret with its data map;
  \<^item> \<open>newRequestErr method url\<close>: the error of \<open>http.NewRequest\<close>, if it rejects the
    method or the URL;
  \<^item> \<open>clientDo\<close>: sending a request upstream, a transport error or a response;
  \<^item> \<open>jsonString\<close>: encoding/json's rendering of a string value, quotes included.
\<close>

record deps =
  sha256 :: "string \<Rightarrow> string"
  parseBasicAuth :: "string \<Rightarrow> (string \<times> string) option"
  readCookie :: "Header \<Rightarrow> string \<Rightarrow> string option"
  kvGet :: "string \<Rightarrow> string \<Rightarrow> string + (string \<rightharpoonup> secret_value) option option"
  newRequestErr :: "string \<Rightarrow> string \<Rightarrow> string option"
  clientDo :: "ProxyReq \<Rightarrow> string + UpstreamResp"
  jsonString :: "string \<Rightarrow> string"

text \<open>Lower-case hexadecimal, as \<open>fmt.Sprintf("%x", bytes)\<close> prints it.\<close>

definition hexByte :: "char \<Rightarrow> string" where
  "hexByte c =
     [''0123456789abcdef'' ! ((of_char c :: nat) div 16),
      ''0123456789abcdef'' ! ((of_char c :: nat) mod 16)]"

definition hex :: "string \<Rightarrow> string" where
  "hex bs = concat (map hexByte bs)"

text \<open>Standard base64 with padding (\<open>base64.StdEncoding.EncodeToString\<close>).\<close>

definition b64digit :: "nat \<Rightarrow> char" where
  "b64digit n = ''ABCDEFGHIJKLMNOPQRSTUVWXYZabcdefghijklmnopqrstuvwxyz0123456789+/'' ! n"

fun b64 :: "nat list \<Rightarrow> string" where
  "b64 [] = []"
| "b64 [a] = [b64digit (a div 4), b64digit ((a mod 4) * 16), CHR ''='', CHR ''='']"
| "b64 [a, b] =
     [b64digit (a div 4), b64digit ((a mod 4) * 16 + b div 16),
      b64digit ((b mod 16) * 4), CHR ''='']"
| "b64 (a # b # c # rest) =
     [b64digit (a div 4), b64digit ((a mod 4) * 16 + b div 16),
      b64digit ((b mod 16) * 4 + c div 64), b64digit (c mod 64)] @ b64 rest"

definition base64 :: "string \<Rightarrow> string" where
  "base64 s = b64 (map of_char s)"

section \<open>pkg/cache/cache.go: the credential cache\<close>

text \<open>
  Modelled from the spec: the store behind \<open>CredentialCache\<close> is the go-cache library,
  which is not among the sources. An entry holds the credentials and an expiry time stamp
  (nanoseconds; 0 for an entry that never expires). \<open>Set\<close> overwrites the entry under the key
  and stamps it with the current time plus the time to live, the cache's default when the
  caller passes \<open>DefaultExpiration\<close>. \<open>Get\<close> checks the expiry on every read: an entry
  whose expiry has passed is a miss even while it is still stored. The sweep
  (\<open>DeleteExpired\<close>) removes expired entries and runs on its own interval.
\<close>

record Item =
  Object :: Credentials
  Expiration :: int

record GoCache =
  defaultExpiration :: int
  items :: "string \<rightharpoonup> Item"

text \<open>Modelled from the spec: the library's marker for "use the default time to live".\<close>

definition DefaultExpiration :: int where
  "DefaultExpiration = 0"

text \<open>Modelled from the spec: the library's constructor; a default of 0 means no expiry.\<close>

definition cache_New :: "int \<Rightarrow> GoCache" where
  "cache_New de = \<lparr>defaultExpiration = (if de = 0 then - 1 else de), items = Map.empty\<rparr>"

text \<open>Modelled from the spec: the library's \<open>Set\<close>, which overwrites and stamps the entry.\<close>

definition cache_Set :: "GoCache \<Rightarrow> int \<Rightarrow> string \<Rightarrow> Credentials \<Rightarrow> int \<Rightarrow> GoCache" where
  "cache_Set c now k x d =
     (let d' = (if d = DefaultExpiration then defaultExpiration c else d);
          e = (if d' > 0 then now + d' else 0)
      in c\<lparr>items := (items c)(k \<mapsto> \<lparr>Object = x, Expiration = e\<rparr>)\<rparr>)"

text \<open>Modelled from the spec: an entry with an expiry is expired once the clock is past it.\<close>

definition expired :: "Item \<Rightarrow> int \<Rightarrow> bool" where
  "expired it now = (Expiration it > 0 \<and> now > Expiration it)"

text \<open>Modelled from the spec: the library's \<open>Get\<close>, with the expiry check on read.\<close>

definition cache_Get :: "GoCache \<Rightarrow> int \<Rightarrow> string \<Rightarrow> Credentials option" where
  "cache_Get c now k =
     (case items c k of
        None \<Rightarrow> None
      | Some it \<Rightarrow> if expired it now then None else Some (Object it))"

text \<open>Modelled from the spec: the periodic sweep.\<close>

definition cache_DeleteExpired :: "GoCache \<Rightarrow> int \<Rightarrow> GoCache" where
  "cache_DeleteExpired c now =
     c\<lparr>items := (\<lambda>k. case items c k of
                        None \<Rightarrow> None
                      | Some it \<Rightarrow> if expired it now then None else Some it)\<rparr>"

text \<open>Durations are nanoseconds: five and ten minutes.\<close>

definition DefaultCacheTTL :: int where
  "DefaultCacheTTL = 5 * 60 * 1000000000"

definition DefaultCleanupInterval :: int where
  "DefaultCleanupInterval = 10 * 60 * 1000000000"

definition NewCredentialCache :: GoCache where
  "NewCredentialCache = cache_New DefaultCacheTTL"

definition generateCacheKey :: "deps \<Rightarrow> string \<Rightarrow> string \<Rightarrow> string" where
  "generateCacheKey d vaultToken vaultPath =
     ''creds:'' @ hex (sha256 d (vaultToken @ '':'' @ vaultPath))"

text \<open>
  The methods take the current time: the library reads the clock in \<open>Get\<close> and \<open>Set\<close>.
  \<open>Get\<close> returns \<open>None\<close> for the pair \<open>(nil, false)\<close>.
\<close>

definition Get :: "deps \<Rightarrow> GoCache \<Rightarrow> int \<Rightarrow> string \<Rightarrow> string \<Rightarrow> Credentials option" where
  "Get d c now vaultToken vaultPath =
     (let key = generateCacheKey d vaultToken vaultPath in
      case cache_Get c now key of
        Some creds \<Rightarrow> Some creds
      | None \<Rightarrow> None)"

definition Set :: "deps \<Rightarrow> GoCache \<Rightarrow> int \<Rightarrow> string \<Rightarrow> string \<Rightarrow> Credentials \<Rightarrow> GoCache" where
  "Set d c now vaultToken vaultPath credentials =
     (let key = generateCacheKey d vaultToken vaultPath in
      cache_Set c now key credentials DefaultExpiration)"

section \<open>The response writer\<close>

text \<open>
  What a handler does to an \<open>http.ResponseWriter\<close>: it edits the header map, writes the
  status line once (which sends the headers as they are at that moment), and appends to
  the body. A second \<open>WriteHeader\<close> has no effect; a \<open>Write\<close> before any \<open>WriteHeader\<close>
  sends status 200 first.
\<close>

record ResponseWriter =
  wHeader :: Header
  wroteHeader :: bool
  wStatus :: nat
  wSent :: Header
  wBody :: string

definition newWriter :: ResponseWriter where
  "newWriter = \<lparr>wHeader = Map.empty, wroteHeader = False, wStatus = 0,
                 wSent = Map.empty, wBody = []\<rparr>"

definition HeaderSet :: "ResponseWriter \<Rightarrow> string \<Rightarrow> string \<Rightarrow> ResponseWriter" where
  "HeaderSet w key v = w\<lparr>wHeader := (wHeader w)(key \<mapsto> [v])\<rparr>"

definition WriteHeader :: "ResponseWriter \<Rightarrow> nat \<Rightarrow> ResponseWriter" where
  "WriteHeader w code =
     (if wroteHeader w then w
      else w\<lparr>wroteHeader := True, wStatus := code, wSent := wHeader w\<rparr>)"

definition Write :: "ResponseWriter \<Rightarrow> string \<Rightarrow> ResponseWriter" where
  "Write w bs =
     (let w1 = (if wroteHeader w then w else WriteHeader w 200)
      in w1\<lparr>wBody := wBody w1 @ bs\<rparr>)"

text \<open>\<open>http.Error\<close>: a plain-text reply, the message followed by a newline.\<close>

definition http_Error :: "ResponseWriter \<Rightarrow> string \<Rightarrow> nat \<Rightarrow> ResponseWriter" where
  "http_Error w msg code =
     (let w1 = HeaderSet w ''Content-Type'' ''text/plain; charset=utf-8'';
          w2 = HeaderSet w1 ''X-Content-Type-Options'' ''nosniff'';
          w3 = WriteHeader w2 code
      in Write w3 (msg @ [CHR 0x0A]))"

definition StatusUnauthorized :: nat where
  "StatusUnauthorized = 401"

definition StatusInternalServerError :: nat where
  "StatusInternalServerError = 500"

section \<open>pkg/auth/middleware.go\<close>

text \<open>
  The inbound request: method, URL path and raw query, headers, body, and the two values
  the middleware stores in the request context under the keys \<open>auth\<close> and \<open>bearer\<close>.
\<close>

record Request =
  Method :: string
  Path :: string
  RawQuery :: string
  Header :: Header
  Body :: string
  ctxAuth :: "AuthHeader option"
  ctxBearer :: "BearerAuth option"

record Middleware =
  realm :: string
  service :: string

text \<open>\<open>r.BasicAuth()\<close>: no header, no credentials; otherwise the header is decoded.\<close>

definition BasicAuth :: "deps \<Rightarrow> Request \<Rightarrow> (string \<times> string) option" where
  "BasicAuth d r =
     (let auth = HeaderGet (Header r) ''Authorization'' in
      if auth = [] then None else parseBasicAuth d auth)"

text \<open>
  The body \<open>json.NewEncoder(w).Encode\<close> writes for the error value: one object with the
  key \<open>errors\<close>, holding a one-element array of an object with \<open>code\<close> and \<open>message\<close>,
  and a final newline.
\<close>

definition errorJSON :: "deps \<Rightarrow> string \<Rightarrow> string \<Rightarrow> string" where
  \<open>errorJSON d code message =
     ''{"errors":[{"code":'' @ jsonString d code @ '',"message":'' @ jsonString d message
       @ ''}]}'' @ [CHR 0x0A]\<close>

definition writeErrorResponse ::
  "deps \<Rightarrow> ResponseWriter \<Rightarrow> string \<Rightarrow> string \<Rightarrow> nat \<Rightarrow> ResponseWriter" where
  "writeErrorResponse d w code message statusCode =
     (let w1 = HeaderSet w ''Content-Type'' ''application/json'';
          w2 = WriteHeader w1 statusCode
      in Write w2 (errorJSON d code message))"

definition getActionFromEndpoint :: "string \<Rightarrow> string \<Rightarrow> string" where
  "getActionFromEndpoint endpoint method =
     (if endpoint = ''tags'' \<or> HasPrefix endpoint ''tags/'' then ''pull''
      else if HasPrefix endpoint ''manifests/'' then
        (if method = ''GET'' then ''pull''
         else if method = ''PUT'' then ''push''
         else if method = ''DELETE'' then ''delete''
         else ''pull'')
      else if HasPrefix endpoint ''blobs/'' then
        (if method = ''GET'' then ''pull''
         else if method = ''DELETE'' then ''delete''
         else ''pull'')
      else if endpoint = ''uploads'' \<or> HasPrefix endpoint ''uploads/'' then ''push''
      else ''pull'')"

definition extractScope :: "Request \<Rightarrow> string" where
  "extractScope r =
     (let path = Path r in
      if HasPrefix path ''/v2/'' then
        (let path = TrimPrefix path ''/v2/'' in
         if path = ''_catalog'' then ''registry:catalog:*''
         else if Contains path ''/'' then
           (let parts = Split path ''/'' in
            if length parts \<ge> 2 then
              (let repoName = Join (butlast parts) ''/'';
                   endpoint = last parts;
                   action = getActionFromEndpoint endpoint (Method r)
               in ''repository:'' @ repoName @ '':'' @ action)
            else [])
         else [])
      else [])"

definition challengeAuth :: "deps \<Rightarrow> Middleware \<Rightarrow> ResponseWriter \<Rightarrow> Request \<Rightarrow> ResponseWriter" where
  \<open>challengeAuth d m w r =
     (let scope = extractScope r;
          authHeader = ''Bearer realm="'' @ realm m @ ''",service="'' @ service m @ ''"'';
          authHeader = (if scope \<noteq> [] then authHeader @ '',scope="'' @ scope @ ''"''
                        else authHeader);
          w1 = HeaderSet w ''WWW-Authenticate'' authHeader;
          w2 = HeaderSet w1 ''Docker-Distribution-API-Version'' ''registry/2.0''
      in writeErrorResponse d w2 ''UNAUTHORIZED'' ''authentication required'' StatusUnauthorized)\<close>

definition extractRegistryURL :: "deps \<Rightarrow> Request \<Rightarrow> string" where
  "extractRegistryURL d r =
     (let registryURL = HeaderGet (Header r) ''X-Registry-URL'' in
      if registryURL \<noteq> [] then registryURL
      else (case readCookie d (Header r) ''registry-url'' of
              Some v \<Rightarrow> v
            | None \<Rightarrow> ''registry-1.docker.io''))"

text \<open>
  A handler takes the request, the response writer and the state of the server, and
  returns the writer and the state as it leaves them.
\<close>

type_synonym 's Handler = "Request \<Rightarrow> ResponseWriter \<Rightarrow> 's \<Rightarrow> ResponseWriter \<times> 's"

definition handleBearerAuth :: "deps \<Rightarrow> Middleware \<Rightarrow> 's Handler \<Rightarrow> 's Handler" where
  "handleBearerAuth d m next r w s =
     (let authHeader = HeaderGet (Header r) ''Authorization'';
          token = TrimPrefix authHeader ''Bearer ''
      in if token = [] then (challengeAuth d m w r, s)
         else
           let registryURL = extractRegistryURL d r;
               registryURL = (if registryURL = [] then ''registry-1.docker.io'' else registryURL);
               bearerAuth = \<lparr>bearer_Token = token, bearer_RegistryURL = registryURL\<rparr>
           in next (r\<lparr>ctxBearer := Some bearerAuth\<rparr>) w s)"

definition handleBasicAuth :: "deps \<Rightarrow> Middleware \<Rightarrow> 's Handler \<Rightarrow> 's Handler" where
  "handleBasicAuth d m next r w s =
     (case BasicAuth d r of
        None \<Rightarrow> (challengeAuth d m w r, s)
      | Some (username, password) \<Rightarrow>
          (case ParseUsername username of
             Inl err \<Rightarrow>
               (writeErrorResponse d w ''UNAUTHORIZED'' ''Invalid username format''
                  StatusUnauthorized, s)
           | Inr cfg \<Rightarrow>
               let authCtx = \<lparr>auth_Username = username, auth_Password = password\<rparr>
               in next (r\<lparr>ctxAuth := Some authCtx\<rparr>) w s))"

definition DockerRegistryAuth :: "deps \<Rightarrow> Middleware \<Rightarrow> 's Handler \<Rightarrow> 's Handler" where
  "DockerRegistryAuth d m next r w s =
     (if Path r = ''/v2/'' then next r w s
      else
        let authHeader = HeaderGet (Header r) ''Authorization'' in
        if authHeader = [] then (challengeAuth d m w r, s)
        else if HasPrefix authHeader ''Bearer '' then handleBearerAuth d m next r w s
        else handleBasicAuth d m next r w s)"

section \<open>The secret-store client and the proxy server\<close>

text \<open>
  The state of the server: the token held by the shared secret-store client (set by
  \<open>SetToken\<close>), the credential cache, and, for the proofs only, the list of reads sent to
  the secret store, each with the token it was sent under. Log lines are left out.
\<close>

record ProxyServer =
  vaultToken :: string
  cache :: GoCache
  vaultReads :: "(string \<times> string) list"

definition NewProxyServer :: ProxyServer where
  "NewProxyServer = \<lparr>vaultToken = [], cache = NewCredentialCache, vaultReads = []\<rparr>"

definition SetToken :: "ProxyServer \<Rightarrow> string \<Rightarrow> ProxyServer" where
  "SetToken p token = p\<lparr>vaultToken := token\<rparr>"

datatype vault_error =
  SecretNotFoundBecause string
  | ErrSecretNotFound
  | UsernameNotFound
  | PasswordNotFound

definition vault_error_text :: "vault_error \<Rightarrow> string" where
  "vault_error_text e =
     (case e of
        SecretNotFoundBecause why \<Rightarrow> ''secret not found in Vault: '' @ why
      | ErrSecretNotFound \<Rightarrow> ''secret not found in Vault''
      | UsernameNotFound \<Rightarrow> ''username not found in secret''
      | PasswordNotFound \<Rightarrow> ''password not found in secret'')"

text \<open>
  \<open>Client.GetCredentials\<close>: one read of the secret store under the client's current
  token, then the extraction of the fields. \<open>data["username"].(string)\<close> succeeds exactly
  when the key is present with a string value.
\<close>

definition GetCredentials ::
  "deps \<Rightarrow> ProxyServer \<Rightarrow> string \<Rightarrow> (vault_error + Credentials) \<times> ProxyServer" where
  "GetCredentials d p vaultPath =
     (let p1 = p\<lparr>vaultReads := vaultReads p @ [(vaultToken p, vaultPath)]\<rparr> in
      case kvGet d (vaultToken p) vaultPath of
        Inl why \<Rightarrow> (Inl (SecretNotFoundBecause why), p1)
      | Inr None \<Rightarrow> (Inl ErrSecretNotFound, p1)
      | Inr (Some None) \<Rightarrow> (Inl ErrSecretNotFound, p1)
      | Inr (Some (Some data)) \<Rightarrow>
          (case data ''username'' of
             Some (VString username) \<Rightarrow>
               (case data ''password'' of
                  Some (VString password) \<Rightarrow>
                    (let email = (case data ''email'' of
                                    Some (VString emailStr) \<Rightarrow> emailStr
                                  | _ \<Rightarrow> [])
                     in (Inr \<lparr>Username = username, Password = password, Email = email\<rparr>, p1))
                | _ \<Rightarrow> (Inl PasswordNotFound, p1))
           | _ \<Rightarrow> (Inl UsernameNotFound, p1)))"

definition authenticateAndGetCredentials ::
  "deps \<Rightarrow> int \<Rightarrow> Request \<Rightarrow> ProxyServer
     \<Rightarrow> (string + Credentials \<times> RegistryConfig) \<times> ProxyServer" where
  "authenticateAndGetCredentials d now r p =
     (case BasicAuth d r of
        None \<Rightarrow> (Inl ''basic authentication required'', p)
      | Some (username, password) \<Rightarrow>
          (case ParseUsername username of
             Inl err \<Rightarrow> (Inl (''invalid username format: '' @ parse_error_text err), p)
           | Inr registryConfig \<Rightarrow>
               (let p1 = SetToken p password in
                case Get d (cache p1) now password (VaultPath registryConfig) of
                  Some credentials \<Rightarrow> (Inr (credentials, registryConfig), p1)
                | None \<Rightarrow>
                    (case GetCredentials d p1 (VaultPath registryConfig) of
                       (Inl err, p2) \<Rightarrow>
                         (Inl (''failed to retrieve credentials from Vault: ''
                                 @ vault_error_text err), p2)
                     | (Inr credentials, p2) \<Rightarrow>
                         (Inr (credentials, registryConfig),
                          p2\<lparr>cache := Set d (cache p2) now password
                                          (VaultPath registryConfig) credentials\<rparr>)))))"

text \<open>The target URL both forwarders build.\<close>

definition targetURL :: "string \<Rightarrow> string \<Rightarrow> Request \<Rightarrow> string" where
  "targetURL registryURL0 targetPath r =
     (let registryURL =
            (if \<not> HasPrefix registryURL0 ''http://'' \<and> \<not> HasPrefix registryURL0 ''https://''
             then ''https://'' @ registryURL0 else registryURL0);
          url = registryURL @ ''/v2'' @ targetPath
      in if RawQuery r \<noteq> [] then url @ ''?'' @ RawQuery r else url)"

text \<open>
  Each forwarder is written in two steps: the construction of the outbound request (up
  to the call of the HTTP client), and the exchange with the upstream.
  \<open>http.NewRequest\<close> returns a request with an empty header map.
\<close>

definition proxyBearerRequest_build ::
  "deps \<Rightarrow> Request \<Rightarrow> BearerAuth \<Rightarrow> string \<Rightarrow> string + ProxyReq" where
  "proxyBearerRequest_build d r bearerAuth targetPath =
     (let url = targetURL (bearer_RegistryURL bearerAuth) targetPath r in
      case newRequestErr d (Method r) url of
        Some err \<Rightarrow> Inl (''failed to create proxy request: '' @ err)
      | None \<Rightarrow>
          Inr \<lparr>pr_Method = Method r, pr_URL = url,
               pr_Header = Map.empty ++ Header r, pr_Body = Body r\<rparr>)"

text \<open>\<open>SetBasicAuth\<close> sets the \<open>Authorization\<close> header to the Basic scheme.\<close>

definition SetBasicAuth :: "ProxyReq \<Rightarrow> string \<Rightarrow> string \<Rightarrow> ProxyReq" where
  "SetBasicAuth q username password =
     q\<lparr>pr_Header := (pr_Header q)(''Authorization'' \<mapsto>
          [''Basic '' @ base64 (username @ '':'' @ password)])\<rparr>"

definition proxyRequest_build ::
  "deps \<Rightarrow> Request \<Rightarrow> Credentials \<Rightarrow> RegistryConfig \<Rightarrow> string \<Rightarrow> string + ProxyReq" where
  "proxyRequest_build d r credentials registryConfig targetPath =
     (let url = targetURL (RegistryURL registryConfig) targetPath r in
      case newRequestErr d (Method r) url of
        Some err \<Rightarrow> Inl (''failed to create proxy request: '' @ err)
      | None \<Rightarrow>
          (let proxyReq =
                 \<lparr>pr_Method = Method r, pr_URL = url,
                  pr_Header = Map.empty ++
                    (\<lambda>name. if name \<noteq> ''Authorization'' then Header r name else None),
                  pr_Body = Body r\<rparr>
           in Inr (SetBasicAuth proxyReq (Username credentials) (Password credentials))))"

text \<open>
  The exchange: send, copy the response headers, write the status, stream the body.
  The result is the writer and the error the forwarder returns, if any.
\<close>

definition forward :: "deps \<Rightarrow> ResponseWriter \<Rightarrow> ProxyReq \<Rightarrow> ResponseWriter \<times> string option" where
  "forward d w proxyReq =
     (case clientDo d proxyReq of
        Inl err \<Rightarrow> (w, Some (''failed to forward request: '' @ err))
      | Inr resp \<Rightarrow>
          (let w1 = w\<lparr>wHeader := wHeader w ++ RespHeader resp\<rparr>;
               w2 = WriteHeader w1 (StatusCode resp);
               w3 = Write w2 (RespBody resp)
           in case CopyErr resp of
                Some err \<Rightarrow> (w3, Some (''failed to copy response body: '' @ err))
              | None \<Rightarrow> (w3, None)))"

definition proxyBearerRequest ::
  "deps \<Rightarrow> ResponseWriter \<Rightarrow> Request \<Rightarrow> BearerAuth \<Rightarrow> string \<Rightarrow> ResponseWriter \<times> string option" where
  "proxyBearerRequest d w r bearerAuth targetPath =
     (case proxyBearerRequest_build d r bearerAuth targetPath of
        Inl err \<Rightarrow> (w, Some err)
      | Inr proxyReq \<Rightarrow> forward d w proxyReq)"

definition proxyRequest ::
  "deps \<Rightarrow> ResponseWriter \<Rightarrow> Request \<Rightarrow> Credentials \<Rightarrow> RegistryConfig \<Rightarrow> string
     \<Rightarrow> ResponseWriter \<times> string option" where
  "proxyRequest d w r credentials registryConfig targetPath =
     (case proxyRequest_build d r credentials registryConfig targetPath of
        Inl err \<Rightarrow> (w, Some err)
      | Inr proxyReq \<Rightarrow> forward d w proxyReq)"

text \<open>The four handlers: first the Bearer branch, then the Basic one.\<close>

definition GetCatalog :: "deps \<Rightarrow> int \<Rightarrow> ProxyServer Handler" where
  "GetCatalog d now r w p =
     (case ctxBearer r of
        Some bearerAuth \<Rightarrow>
          (case proxyBearerRequest d w r bearerAuth ''/_catalog'' of
             (w1, Some err) \<Rightarrow>
               (http_Error w1 (''failed to proxy request: '' @ err) StatusInternalServerError, p)
           | (w1, None) \<Rightarrow> (w1, p))
      | None \<Rightarrow>
          (case authenticateAndGetCredentials d now r p of
             (Inl err, p1) \<Rightarrow> (http_Error w err StatusUnauthorized, p1)
           | (Inr (credentials, registryConfig), p1) \<Rightarrow>
               (case proxyRequest d w r credentials registryConfig ''/_catalog'' of
                  (w1, Some err) \<Rightarrow>
                    (http_Error w1 (''failed to proxy request: '' @ err)
                       StatusInternalServerError, p1)
                | (w1, None) \<Rightarrow> (w1, p1))))"

definition GetTags :: "deps \<Rightarrow> int \<Rightarrow> ProxyServer Handler" where
  "GetTags d now r w p =
     (let path = Path r;
          repoPath = TrimPrefix path ''/v2/'';
          repoPath = TrimSuffix repoPath ''/tags/list'';
          targetPath = ''/'' @ repoPath @ ''/tags/list''
      in case ctxBearer r of
           Some bearerAuth \<Rightarrow>
             (case proxyBearerRequest d w r bearerAuth targetPath of
                (w1, Some err) \<Rightarrow>
                  (http_Error w1 (''failed to proxy request: '' @ err)
                     StatusInternalServerError, p)
              | (w1, None) \<Rightarrow> (w1, p))
         | None \<Rightarrow>
             (case authenticateAndGetCredentials d now r p of
                (Inl err, p1) \<Rightarrow> (http_Error w err StatusUnauthorized, p1)
              | (Inr (credentials, registryConfig), p1) \<Rightarrow>
                  (case proxyRequest d w r credentials registryConfig targetPath of
                     (w1, Some err) \<Rightarrow>
                       (http_Error w1 (''failed to proxy request: '' @ err)
                          StatusInternalServerError, p1)
                   | (w1, None) \<Rightarrow> (w1, p1))))"

definition GetManifest :: "deps \<Rightarrow> int \<Rightarrow> ProxyServer Handler" where
  "GetManifest d now r w p =
     (case ctxBearer r of
        Some bearerAuth \<Rightarrow>
          (let path = TrimPrefix (Path r) ''/v2'' in
           case proxyBearerRequest d w r bearerAuth path of
             (w1, Some err) \<Rightarrow>
               (http_Error w1 (''failed to proxy request: '' @ err) StatusInternalServerError, p)
           | (w1, None) \<Rightarrow> (w1, p))
      | None \<Rightarrow>
          (case authenticateAndGetCredentials d now r p of
             (Inl err, p1) \<Rightarrow> (http_Error w err StatusUnauthorized, p1)
           | (Inr (credentials, registryConfig), p1) \<Rightarrow>
               (let path = TrimPrefix (Path r) ''/v2'' in
                case proxyRequest d w r credentials registryConfig path of
                  (w1, Some err) \<Rightarrow>
                    (http_Error w1 (''failed to proxy request: '' @ err)
                       StatusInternalServerError, p1)
                | (w1, None) \<Rightarrow> (w1, p1))))"

definition GetBlob :: "deps \<Rightarrow> int \<Rightarrow> ProxyServer Handler" where
  "GetBlob d now r w p =
     (case ctxBearer r of
        Some bearerAuth \<Rightarrow>
          (let path = TrimPrefix (Path r) ''/v2'' in
           case proxyBearerRequest d w r bearerAuth path of
             (w1, Some err) \<Rightarrow>
               (http_Error w1 (''failed to proxy request: '' @ err) StatusInternalServerError, p)
           | (w1, None) \<Rightarrow> (w1, p))
      | None \<Rightarrow>
          (case authenticateAndGetCredentials d now r p of
             (Inl err, p1) \<Rightarrow> (http_Error w err StatusUnauthorized, p1)
           | (Inr (credentials, registryConfig), p1) \<Rightarrow>
               (let path = TrimPrefix (Path r) ''/v2'' in
                case proxyRequest d w r credentials registryConfig path of
                  (w1, Some err) \<Rightarrow>
                    (http_Error w1 (''failed to proxy request: '' @ err)
                       StatusInternalServerError, p1)
                | (w1, None) \<Rightarrow> (w1, p1))))"

text \<open>
  The handlers differ only in the path they forward to. \<open>targetOf\<close> is that path, for a
  handler named by its route.
\<close>

datatype route = Catalog | Tags | Manifest | Blob

definition handlerOf :: "route \<Rightarrow> deps \<Rightarrow> int \<Rightarrow> ProxyServer Handler" where
  "handlerOf rt = (case rt of Catalog \<Rightarrow> GetCatalog | Tags \<Rightarrow> GetTags
                   | Manifest \<Rightarrow> GetManifest | Blob \<Rightarrow> GetBlob)"

definition targetOf :: "route \<Rightarrow> Request \<Rightarrow> string" where
  "targetOf rt r =
     (case rt of
        Catalog \<Rightarrow> ''/_catalog''
      | Tags \<Rightarrow> ''/'' @ TrimSuffix (TrimPrefix (Path r) ''/v2/'') ''/tags/list'' @ ''/tags/list''
      | Manifest \<Rightarrow> TrimPrefix (Path r) ''/v2''
      | Blob \<Rightarrow> TrimPrefix (Path r) ''/v2'')"

definition APIVersionCheck :: "ProxyServer Handler" where
  "APIVersionCheck r w p =
     (WriteHeader (HeaderSet w ''Docker-Distribution-API-Version'' ''registry/2.0'') 200, p)"

text \<open>
  The body shape of the registry protocol's error replies: some code and some message,
  rendered as \<open>errorJSON\<close> renders them.
\<close>

definition isErrorBody :: "deps \<Rightarrow> string \<Rightarrow> bool" where
  "isErrorBody d body = (\<exists>code message. body = errorJSON d code message)"

text \<open>The string value of a field of a secret, if the field is there and holds a string.\<close>

definition stringField :: "(string \<rightharpoonup> secret_value) \<Rightarrow> string \<Rightarrow> string option" where
  "stringField data key = (case data key of Some (VString s) \<Rightarrow> Some s | _ \<Rightarrow> None)"

section \<open>An example environment\<close>

text \<open>
  One concrete environment and request, for the closed instances below. The client
  presents the locator \<open>docker;docker-hub;registry.hub.docker.com\<close> and the token
  \<open>tok\<close>; the secret store holds a user and a password under \<open>docker-hub\<close> for that
  token; the upstream answers 200. The digest is a stand-in (the identity) and
  \<open>jsonString\<close> only adds the quotes, which is what the encoder does on the plain ASCII
  texts used here.
\<close>

definition exampleBasic :: string where
  "exampleBasic = ''Basic '' @ base64 ''docker;docker-hub;registry.hub.docker.com:tok''"

definition exampleDeps :: deps where
  "exampleDeps =
     \<lparr>sha256 = (\<lambda>s. s),
      parseBasicAuth = (\<lambda>a. if a = exampleBasic
                            then Some (''docker;docker-hub;registry.hub.docker.com'', ''tok'')
                            else None),
      readCookie = (\<lambda>h name. None),
      kvGet = (\<lambda>token path.
                 if token = ''tok'' \<and> path = ''docker-hub''
                 then Inr (Some (Some [''username'' \<mapsto> VString ''alice'',
                                       ''password'' \<mapsto> VString ''s3cret'']))
                 else Inl ''permission denied''),
      newRequestErr = (\<lambda>method url. None),
      clientDo = (\<lambda>q. Inr \<lparr>StatusCode = 200,
                            RespHeader = [''Content-Type'' \<mapsto> [''application/json'']],
                            RespBody = ''{}'', CopyErr = None\<rparr>),
      jsonString = (\<lambda>s. [CHR 0x22] @ s @ [CHR 0x22])\<rparr>"

definition exampleMiddleware :: Middleware where
  "exampleMiddleware = \<lparr>realm = ''https://auth.docker.io/token'', service = ''registry.docker.io''\<rparr>"

definition basicRequest :: Request where
  "basicRequest =
     \<lparr>Method = ''GET'', Path = ''/v2/_catalog'', RawQuery = [],
      Header = [''Authorization'' \<mapsto> [exampleBasic], ''Accept'' \<mapsto> [''application/json'']],
      Body = [], ctxAuth = None, ctxBearer = None\<rparr>"

definition bearerRequest :: Request where
  "bearerRequest =
     \<lparr>Method = ''GET'', Path = ''/v2/_catalog'', RawQuery = ''n=10'',
      Header = [''Authorization'' \<mapsto> [''Bearer abc.def''],
                ''X-Registry-URL'' \<mapsto> [''my.registry.example'']],
      Body = [], ctxAuth = None, ctxBearer = None\<rparr>"

text \<open>
  The same environment with an upstream that echoes what it was sent: the response
  carries the headers of the request it received, and its body is the method and the URL.
\<close>

definition echoDeps :: deps where
  "echoDeps =
     exampleDeps\<lparr>clientDo := (\<lambda>q. Inr \<lparr>StatusCode = 200, RespHeader = pr_Header q,
                                        RespBody = pr_Method q @ '' '' @ pr_URL q,
                                        CopyErr = None\<rparr>)\<rparr>"

section \<open>Properties\<close>

subsection \<open>The locator parser\<close>


lemma Cut_first:
  "c \<notin> set t \<Longrightarrow> Cut (t @ c # rest) [c] = Some (t, rest)"
  by (induction t) auto

lemma Cut_none:
  "c \<notin> set s \<Longrightarrow> Cut s [c] = None"
  by (induction s) auto

lemma Cut_some_iff:
  "(Cut s [c] = None) = (c \<notin> set s)"
  by (induction s) (auto split: option.splits)

lemma SplitN3_semis:
  assumes "CHR '';'' \<notin> set t" and "CHR '';'' \<notin> set p"
  shows "SplitN (t @ '';'' @ p @ '';'' @ u) '';'' 3 = [t, p, u]"
  using assms by (simp add: numeral_3_eq_3 Cut_first)

lemma isValidRegistryType_iff:
  "isValidRegistryType r = (r \<in> {''docker'', ''ecr'', ''gcr''})"
  by (simp add: isValidRegistryType_def)

lemma length3_cases:
  "length xs = 3 \<Longrightarrow> \<exists>a b c. xs = [a, b, c]"
  by (auto simp: numeral_3_eq_3 length_Suc_conv)

text \<open>
  C6, as amended. For every input string, \<open>ParseUsername\<close> fails with the
  invalid-format error exactly when splitting on \<open>;\<close> (at most three parts) does not give
  three parts that are all non-empty after trimming; and it fails with the
  unsupported-type error exactly when there are three such parts and the first one,
  after trimming, is none of \<open>docker\<close>, \<open>ecr\<close>, \<open>gcr\<close>.
\<close>

theorem ParseUsername_errors:
  "(ParseUsername raw = Inl ErrInvalidUsernameFormat) =
     (\<not> (length (SplitN raw '';'' 3) = 3 \<and>
         list_all (\<lambda>p. TrimSpace p \<noteq> []) (SplitN raw '';'' 3)))
   \<and> (ParseUsername raw = Inl ErrUnsupportedRegistryType) =
     (length (SplitN raw '';'' 3) = 3 \<and>
      list_all (\<lambda>p. TrimSpace p \<noteq> []) (SplitN raw '';'' 3) \<and>
      TrimSpace (hd (SplitN raw '';'' 3)) \<notin> {''docker'', ''ecr'', ''gcr''})"
proof (cases "length (SplitN raw '';'' 3) = 3")
  case False
  then show ?thesis by (simp add: ParseUsername_def Let_def)
next
  case True
  then obtain a b c where parts: "SplitN raw '';'' 3 = [a, b, c]"
    using length3_cases by blast
  show ?thesis
    unfolding ParseUsername_def Let_def parts
    by (simp add: isValidRegistryType_iff)
qed

text \<open>Three inputs, one for each way of failing.\<close>

theorem ParseUsername_errors_witness:
  "ParseUsername ''docker;a'' = Inl ErrInvalidUsernameFormat
   \<and> ParseUsername ''docker; ;u'' = Inl ErrInvalidUsernameFormat
   \<and> ParseUsername ''quay;a;u'' = Inl ErrUnsupportedRegistryType"
proof -
  have 1: "length (SplitN ''docker;a'' '';'' 3) \<noteq> 3" by code_simp
  have 2: "\<not> list_all (\<lambda>p. TrimSpace p \<noteq> []) (SplitN ''docker; ;u'' '';'' 3)" by code_simp
  have 3: "length (SplitN ''quay;a;u'' '';'' 3) = 3 \<and>
      list_all (\<lambda>p. TrimSpace p \<noteq> []) (SplitN ''quay;a;u'' '';'' 3) \<and>
      TrimSpace (hd (SplitN ''quay;a;u'' '';'' 3)) \<notin> {''docker'', ''ecr'', ''gcr''}" by code_simp
  show ?thesis
    using ParseUsername_errors [of "''docker;a''"] ParseUsername_errors [of "''docker; ;u''"]
      ParseUsername_errors [of "''quay;a;u''"] 1 2 3
    by blast
qed

text \<open>
  C6 as stated tests the first part itself. The three parts of \<open> docker ;a;u\<close> are
  non-empty after trimming and the first part, \<open> docker \<close>, is none of the three type
  names; the parser trims it to \<open>docker\<close> and succeeds, so it does not fail with the
  unsupported-type error.
\<close>

theorem ParseUsername_errors_counterexample:
  "\<not> ((ParseUsername '' docker ;a;u'' = Inl ErrUnsupportedRegistryType) =
       (length (SplitN '' docker ;a;u'' '';'' 3) = 3 \<and>
        list_all (\<lambda>p. TrimSpace p \<noteq> []) (SplitN '' docker ;a;u'' '';'' 3) \<and>
        hd (SplitN '' docker ;a;u'' '';'' 3) \<notin> {''docker'', ''ecr'', ''gcr''}))"
proof -
  have ok: "ParseUsername '' docker ;a;u'' =
      Inr \<lparr>Type = ''docker'', VaultPath = ''a'', RegistryURL = ''u''\<rparr>"
    by code_simp
  have parts: "length (SplitN '' docker ;a;u'' '';'' 3) = 3 \<and>
      list_all (\<lambda>p. TrimSpace p \<noteq> []) (SplitN '' docker ;a;u'' '';'' 3) \<and>
      hd (SplitN '' docker ;a;u'' '';'' 3) \<notin> {''docker'', ''ecr'', ''gcr''}"
    by code_simp
  show ?thesis
    using ok parts by simp
qed

text \<open>
  C7, as amended. For every string \<open>t;p;u\<close> whose first two segments contain no
  semicolon, whose segments are non-empty after trimming and whose first segment, trimmed,
  is a known type, \<open>ParseUsername\<close> succeeds and the three fields are the three segments
  with leading and trailing white space removed. The third segment may contain semicolons.
\<close>

theorem ParseUsername_roundtrip:
  assumes "CHR '';'' \<notin> set t" and "CHR '';'' \<notin> set p"
    and "isValidRegistryType (TrimSpace t)"
    and "TrimSpace p \<noteq> []" and "TrimSpace u \<noteq> []"
  shows "ParseUsername (t @ '';'' @ p @ '';'' @ u) =
           Inr \<lparr>Type = TrimSpace t, VaultPath = TrimSpace p, RegistryURL = TrimSpace u\<rparr>"
proof -
  have "TrimSpace t \<noteq> []"
    using assms(3) by (auto simp: isValidRegistryType_iff)
  then show ?thesis
    using assms unfolding ParseUsername_def Let_def SplitN3_semis [OF assms(1,2)]
    by simp
qed

text \<open>A locator with padded segments and semicolons inside the registry URL.\<close>

theorem ParseUsername_roundtrip_witness:
  "ParseUsername ''docker; docker-hub ;https://r.example/a;b;c'' =
     Inr \<lparr>Type = ''docker'', VaultPath = ''docker-hub'', RegistryURL = ''https://r.example/a;b;c''\<rparr>"
proof -
  have a: "CHR '';'' \<notin> set ''docker''" "CHR '';'' \<notin> set '' docker-hub ''" by simp_all
  have b: "isValidRegistryType (TrimSpace ''docker'')" by code_simp
  have c: "TrimSpace '' docker-hub '' \<noteq> []" "TrimSpace ''https://r.example/a;b;c'' \<noteq> []"
    by code_simp+
  have t: "TrimSpace ''docker'' = ''docker''" "TrimSpace '' docker-hub '' = ''docker-hub''"
    "TrimSpace ''https://r.example/a;b;c'' = ''https://r.example/a;b;c''"
    by code_simp+
  show ?thesis
    using ParseUsername_roundtrip [OF a b c] unfolding t by simp
qed

text \<open>
  C7 as stated asks for the fields to equal the segments exactly. The segments of
  \<open>docker; p;u\<close> satisfy the claim's conditions, and the second field comes back as
  \<open>p\<close>, not as the segment \<open> p\<close>.
\<close>

theorem ParseUsername_roundtrip_counterexample:
  "\<not> (isValidRegistryType ''docker'' \<and> TrimSpace ''docker'' \<noteq> [] \<and> TrimSpace '' p'' \<noteq> []
       \<and> TrimSpace ''u'' \<noteq> []
      \<longrightarrow> ParseUsername (''docker'' @ '';'' @ '' p'' @ '';'' @ ''u'') =
            Inr \<lparr>Type = ''docker'', VaultPath = '' p'', RegistryURL = ''u''\<rparr>)"
  by code_simp

subsection \<open>The credential cache\<close>

lemma token_path_concat_unique:
  assumes "CHR '':'' \<notin> set p" and "CHR '':'' \<notin> set p'"
    and "t @ '':'' @ p = t' @ '':'' @ p'"
  shows "t = t' \<and> p = p'"
proof -
  have tw: "takeWhile (\<lambda>c. c \<noteq> CHR '':'') (rev (a @ '':'' @ b)) = rev b"
    if "CHR '':'' \<notin> set b" for a b :: string
    using that by (auto simp: takeWhile_tail)
  have "rev p = takeWhile (\<lambda>c. c \<noteq> CHR '':'') (rev (t @ '':'' @ p))"
    using tw [OF assms(1), of t] by simp
  also have "\<dots> = takeWhile (\<lambda>c. c \<noteq> CHR '':'') (rev (t' @ '':'' @ p'))"
    by (simp only: assms(3))
  also have "\<dots> = rev p'"
    using tw [OF assms(2), of t'] by simp
  finally have "rev p = rev p'" .
  then have "p = p'" by simp
  with assms(3) show ?thesis by simp
qed

text \<open>
  C1. The claim asks that two distinct (token, path) pairs never share a cache key. The
  key is the digest of token, colon, path. The pairs \<open>(a:b, c)\<close> and \<open>(a, b:c)\<close> are
  distinct and give the same text \<open>a:b:c\<close>, hence the same key under every digest, and
  a \<open>Get\<close> for the second pair returns the credentials that were \<open>Set\<close> under the first.
\<close>

theorem generateCacheKey_collision:
  "generateCacheKey d ''a:b'' ''c'' = generateCacheKey d ''a'' ''b:c''
   \<and> Get d (Set d NewCredentialCache now ''a:b'' ''c'' creds) now ''a'' ''b:c'' = Some creds"
proof -
  have k: "generateCacheKey d ''a:b'' ''c'' = generateCacheKey d ''a'' ''b:c''"
    by (simp add: generateCacheKey_def)
  have "Get d (Set d NewCredentialCache now ''a:b'' ''c'' creds) now ''a:b'' ''c'' = Some creds"
    by (simp add: Get_def Set_def cache_Get_def cache_Set_def expired_def Let_def
        NewCredentialCache_def cache_New_def DefaultCacheTTL_def DefaultExpiration_def)
  then show ?thesis
    using k by (simp add: Get_def)
qed

text \<open>
  C5. For a cache with a positive default time to live (the proxy's is five minutes) and
  a clock that is not before the epoch: \<open>Set\<close> followed at once by \<open>Get\<close> for the same
  token and path returns the credentials, and so does every read up to the expiry; a
  read after the time to live has elapsed is a miss, although no sweep has run and the
  entry is still stored.
\<close>

theorem Set_Get_ttl:
  assumes "0 < defaultExpiration c" and "0 \<le> now"
  shows "Get d (Set d c now t p creds) now t p = Some creds
       \<and> (now' \<le> now + defaultExpiration c \<longrightarrow>
            Get d (Set d c now t p creds) now' t p = Some creds)
       \<and> (now + defaultExpiration c < now' \<longrightarrow>
            Get d (Set d c now t p creds) now' t p = None
            \<and> items (Set d c now t p creds) (generateCacheKey d t p) \<noteq> None)"
  using assms
  by (simp add: Get_def Set_def cache_Get_def cache_Set_def expired_def Let_def
      DefaultExpiration_def)

text \<open>The proxy's cache, written at second 1000 and read five minutes and 1 ns later.\<close>

theorem Set_Get_ttl_witness:
  "Get exampleDeps
       (Set exampleDeps NewCredentialCache 1000000000000 ''tok'' ''docker-hub''
          \<lparr>Username = ''alice'', Password = ''s3cret'', Email = []\<rparr>)
       1000000000000 ''tok'' ''docker-hub''
     = Some \<lparr>Username = ''alice'', Password = ''s3cret'', Email = []\<rparr>
   \<and> Get exampleDeps
       (Set exampleDeps NewCredentialCache 1000000000000 ''tok'' ''docker-hub''
          \<lparr>Username = ''alice'', Password = ''s3cret'', Email = []\<rparr>)
       1300000000001 ''tok'' ''docker-hub'' = None
   \<and> items (Set exampleDeps NewCredentialCache 1000000000000 ''tok'' ''docker-hub''
          \<lparr>Username = ''alice'', Password = ''s3cret'', Email = []\<rparr>)
       (generateCacheKey exampleDeps ''tok'' ''docker-hub'') \<noteq> None"
proof -
  have de: "defaultExpiration NewCredentialCache = 300000000000"
    by (simp add: NewCredentialCache_def cache_New_def DefaultCacheTTL_def)
  have h: "0 < defaultExpiration NewCredentialCache" "(0::int) \<le> 1000000000000"
    by (simp_all add: de)
  show ?thesis
    using Set_Get_ttl [OF h, where now' = 1300000000001 and d = exampleDeps
        and t = "''tok''" and p = "''docker-hub''"
        and creds = "\<lparr>Username = ''alice'', Password = ''s3cret'', Email = []\<rparr>"]
    by (simp add: de)
qed

text \<open>The sweep does not change what a read returns.\<close>

lemma Get_after_sweep:
  "Get d (cache_DeleteExpired c now) now t p = Get d c now t p"
  by (simp add: Get_def cache_Get_def cache_DeleteExpired_def Let_def split: option.splits)

subsection \<open>The challenge and its scope\<close>

lemma Contains_char:
  "Contains s [c] = (c \<in> set s)"
  using Cut_some_iff [of s c] by (simp add: Contains_def)

lemma HasPrefix_append:
  "HasPrefix (p @ s) p"
  by (simp add: HasPrefix_def)

lemma TrimPrefix_append:
  "TrimPrefix (p @ s) p = s"
  by (simp add: TrimPrefix_def HasPrefix_def)

text \<open>
  The endpoint handed to \<open>getActionFromEndpoint\<close> is one path segment. On a segment the
  branches for \<open>manifests/\<close>, \<open>blobs/\<close>, \<open>tags/\<close> and \<open>uploads/\<close> cannot be taken.
\<close>

lemma getActionFromEndpoint_segment:
  assumes "CHR ''/'' \<notin> set endpoint"
  shows "getActionFromEndpoint endpoint method =
           (if endpoint = ''uploads'' then ''push'' else ''pull'')"
proof -
  have no: "\<not> HasPrefix endpoint (q @ ''/'')" for q
  proof
    assume "HasPrefix endpoint (q @ ''/'')"
    then have "prefix (q @ ''/'') endpoint"
      by (simp add: HasPrefix_def)
    then have "set (q @ ''/'') \<subseteq> set endpoint"
      by (rule set_mono_prefix)
    with assms show False by auto
  qed
  have "\<not> HasPrefix endpoint ''tags/''" "\<not> HasPrefix endpoint ''manifests/''"
    "\<not> HasPrefix endpoint ''blobs/''" "\<not> HasPrefix endpoint ''uploads/''"
    using no [of "''tags''"] no [of "''manifests''"] no [of "''blobs''"] no [of "''uploads''"]
    by simp_all
  then show ?thesis
    unfolding getActionFromEndpoint_def by (auto simp: HasPrefix_def)
qed

text \<open>The pieces of \<open>Split\<close> on a one-byte separator do not contain the separator.\<close>

lemma SplitN_segments:
  "length s < n \<Longrightarrow> x \<in> set (SplitN s [c] n) \<Longrightarrow> c \<notin> set x"
proof (induction s "[c]" n arbitrary: x rule: SplitN.induct)
  case (1 s)
  then show ?case by simp
next
  case (2 s)
  then show ?case by simp
next
  case (3 s n)
  show ?case
  proof (cases "Cut s [c]")
    case None
    with 3 show ?thesis by (simp add: Cut_some_iff)
  next
    case (Some ab)
    obtain a rest where ab: "ab = (a, rest)" by (cases ab)
    have cut: "Cut s [c] = Some (a, rest)" using Some ab by simp
    have s: "s = a @ c # rest \<and> c \<notin> set a"
      using cut
    proof (induction s arbitrary: a)
      case Nil
      then show ?case by simp
    next
      case (Cons y ys)
      then show ?case
        by (cases "y = c") (auto split: option.splits)
    qed
    then have "length rest < Suc n" using 3(2) by simp
    then show ?thesis
      using 3(1) [OF cut refl] 3(3) s cut by auto
  qed
qed

text \<open>
  Hence no request gets a challenge for the \<open>delete\<close> action, and \<open>push\<close> is only
  derived for a path that ends in \<open>uploads\<close>.
\<close>

lemma extractScope_never_delete:
  "extractScope r = [] \<or> extractScope r = ''registry:catalog:*''
   \<or> (\<exists>repo. extractScope r = ''repository:'' @ repo @ '':pull'')
   \<or> (\<exists>repo. extractScope r = ''repository:'' @ repo @ '':push'')"
proof -
  define path where "path = TrimPrefix (Path r) ''/v2/''"
  define parts where "parts = Split path ''/''"
  have seg: "CHR ''/'' \<notin> set (last parts)" if "parts \<noteq> []"
    using SplitN_segments [of path "Suc (length path)" "last parts" "CHR ''/''"] that
    by (simp add: parts_def Split_def)
  show ?thesis
  proof (cases "HasPrefix (Path r) ''/v2/'' \<and> path \<noteq> ''_catalog'' \<and> Contains path ''/''
                \<and> length parts \<ge> 2")
    case True
    then have ne: "parts \<noteq> []" by auto
    have "extractScope r = ''repository:'' @ Join (butlast parts) ''/'' @ '':''
            @ getActionFromEndpoint (last parts) (Method r)"
      using True by (simp add: extractScope_def Let_def path_def parts_def)
    then show ?thesis
      using getActionFromEndpoint_segment [OF seg [OF ne], of "Method r"]
      by (cases "last parts = ''uploads''") auto
  next
    case False
    then show ?thesis
      by (auto simp: extractScope_def Let_def path_def parts_def)
  qed
qed

text \<open>
  C2. The scope the code derives for the spec's example requests. The catalog scope is
  as the claim states. For the other examples the code takes the last path segment as
  the endpoint and everything before it as the repository name, so the name keeps the
  \<open>manifests\<close> or \<open>tags\<close> segment and the action is \<open>pull\<close> for every method.
\<close>

theorem extractScope_examples:
  "extractScope \<lparr>Method = ''GET'', Path = ''/v2/_catalog'', RawQuery = [], Header = Map.empty,
       Body = [], ctxAuth = None, ctxBearer = None\<rparr> = ''registry:catalog:*''
   \<and> extractScope \<lparr>Method = ''GET'', Path = ''/v2/myrepo/manifests/latest'', RawQuery = [],
       Header = Map.empty, Body = [], ctxAuth = None, ctxBearer = None\<rparr>
       = ''repository:myrepo/manifests:pull''
   \<and> extractScope \<lparr>Method = ''PUT'', Path = ''/v2/myrepo/manifests/latest'', RawQuery = [],
       Header = Map.empty, Body = [], ctxAuth = None, ctxBearer = None\<rparr>
       = ''repository:myrepo/manifests:pull''
   \<and> extractScope \<lparr>Method = ''DELETE'', Path = ''/v2/myrepo/manifests/latest'', RawQuery = [],
       Header = Map.empty, Body = [], ctxAuth = None, ctxBearer = None\<rparr>
       = ''repository:myrepo/manifests:pull''
   \<and> extractScope \<lparr>Method = ''GET'', Path = ''/v2/library/nginx/tags/list'', RawQuery = [],
       Header = Map.empty, Body = [], ctxAuth = None, ctxBearer = None\<rparr>
       = ''repository:library/nginx/tags:pull''"
  by code_simp

lemma extractScope_single_segment:
  assumes "seg \<noteq> ''_catalog''" and "CHR ''/'' \<notin> set seg" and "Path r = ''/v2/'' @ seg"
  shows "extractScope r = []"
  using assms HasPrefix_append [of "''/v2/''" seg] TrimPrefix_append [of "''/v2/''" seg]
    Contains_char [of seg "CHR ''/''"]
  by (simp add: extractScope_def Let_def)

lemma challengeAuth_no_scope:
  assumes "extractScope r = []" and "\<not> wroteHeader w"
  shows \<open>wSent (challengeAuth d m w r) ''WWW-Authenticate''
           = Some [''Bearer realm="'' @ realm m @ ''",service="'' @ service m @ ''"'']
       \<and> wSent (challengeAuth d m w r) ''Docker-Distribution-API-Version''
           = Some [''registry/2.0'']
       \<and> wStatus (challengeAuth d m w r) = 401\<close>
  using assms
  by (simp add: challengeAuth_def writeErrorResponse_def Write_def WriteHeader_def
      HeaderSet_def Let_def StatusUnauthorized_def)

text \<open>
  C10. For a path \<open>/v2/\<close> followed by one non-empty segment other than \<open>_catalog\<close>,
  the challenge is sent with status 401, a \<open>WWW-Authenticate\<close> header that consists of
  realm and service and carries no scope parameter, and the
  \<open>Docker-Distribution-API-Version\<close> header; and a request for such a path without an
  \<open>Authorization\<close> header is answered by the middleware with that challenge, without
  reaching the handler.
\<close>

theorem challenge_single_segment:
  assumes "seg \<noteq> []" and "seg \<noteq> ''_catalog''" and "CHR ''/'' \<notin> set seg"
    and "Path r = ''/v2/'' @ seg"
    and "\<not> wroteHeader w"
  shows \<open>wSent (challengeAuth d m w r) ''WWW-Authenticate''
           = Some [''Bearer realm="'' @ realm m @ ''",service="'' @ service m @ ''"'']
       \<and> wSent (challengeAuth d m w r) ''Docker-Distribution-API-Version''
           = Some [''registry/2.0'']
       \<and> wStatus (challengeAuth d m w r) = 401
       \<and> (HeaderGet (Header r) ''Authorization'' = [] \<longrightarrow>
            DockerRegistryAuth d m nxt r w s = (challengeAuth d m w r, s))\<close>
proof -
  have sc: "extractScope r = []"
    using extractScope_single_segment [OF assms(2,3,4)] .
  have "Path r \<noteq> ''/v2/''"
    using assms(1,4) by simp
  then have "HeaderGet (Header r) ''Authorization'' = [] \<longrightarrow>
      DockerRegistryAuth d m nxt r w s = (challengeAuth d m w r, s)"
    by (simp add: DockerRegistryAuth_def Let_def)
  then show ?thesis
    using challengeAuth_no_scope [OF sc assms(5)] by simp
qed

text \<open>\<open>GET /v2/foo\<close> with no headers, under the realm and service of \<open>main.go\<close>.\<close>

theorem challenge_single_segment_witness:
  \<open>wSent (fst (DockerRegistryAuth exampleDeps exampleMiddleware (GetCatalog exampleDeps 1000)
        \<lparr>Method = ''GET'', Path = ''/v2/foo'', RawQuery = [], Header = Map.empty,
         Body = [], ctxAuth = None, ctxBearer = None\<rparr> newWriter NewProxyServer))
        ''WWW-Authenticate''
     = Some [''Bearer realm="https://auth.docker.io/token",service="registry.docker.io"'']
   \<and> wSent (fst (DockerRegistryAuth exampleDeps exampleMiddleware (GetCatalog exampleDeps 1000)
        \<lparr>Method = ''GET'', Path = ''/v2/foo'', RawQuery = [], Header = Map.empty,
         Body = [], ctxAuth = None, ctxBearer = None\<rparr> newWriter NewProxyServer))
        ''Docker-Distribution-API-Version''
     = Some [''registry/2.0'']\<close>
proof -
  let ?r = "\<lparr>Method = ''GET'', Path = ''/v2/foo'', RawQuery = [], Header = Map.empty,
         Body = [], ctxAuth = None, ctxBearer = None\<rparr>"
  have h: "''foo'' \<noteq> []" "''foo'' \<noteq> ''_catalog''" "CHR ''/'' \<notin> set ''foo''"
    "Path ?r = ''/v2/'' @ ''foo''" "\<not> wroteHeader newWriter"
    by (simp_all add: newWriter_def)
  have a: "HeaderGet (Header ?r) ''Authorization'' = []"
    by (simp add: HeaderGet_def)
  show ?thesis
    using challenge_single_segment [OF h, where d = exampleDeps and m = exampleMiddleware
        and nxt = "GetCatalog exampleDeps 1000" and s = NewProxyServer] a
    by (simp add: exampleMiddleware_def)
qed

subsection \<open>Resolving credentials\<close>

lemma GetCredentials_reads:
  "vaultReads (snd (GetCredentials d p path)) = vaultReads p @ [(vaultToken p, path)]
   \<and> cache (snd (GetCredentials d p path)) = cache p"
  by (simp add: GetCredentials_def Let_def
      split: sum.splits option.splits secret_value.splits)

lemma GetCredentials_data:
  assumes "kvGet d (vaultToken p) path = Inr (Some (Some data))"
  shows "fst (GetCredentials d p path) =
           (case stringField data ''username'' of
              None \<Rightarrow> Inl UsernameNotFound
            | Some u \<Rightarrow>
                (case stringField data ''password'' of
                   None \<Rightarrow> Inl PasswordNotFound
                 | Some pw \<Rightarrow>
                     Inr \<lparr>Username = u, Password = pw,
                          Email = (case stringField data ''email'' of
                                     None \<Rightarrow> [] | Some e \<Rightarrow> e)\<rparr>))"
  using assms
  by (simp add: GetCredentials_def stringField_def Let_def
      split: option.splits secret_value.splits)

lemma Get_Set_same:
  "Get d (Set d c now t p creds) now t p = Some creds"
  by (simp add: Get_def Set_def cache_Get_def cache_Set_def expired_def Let_def)

lemma authenticate_on_miss:
  assumes "BasicAuth d r = Some (username, password)"
    and "ParseUsername username = Inr cfg"
    and "Get d (cache p) now password (VaultPath cfg) = None"
  shows "authenticateAndGetCredentials d now r p =
           (case GetCredentials d (SetToken p password) (VaultPath cfg) of
              (Inl err, p2) \<Rightarrow>
                (Inl (''failed to retrieve credentials from Vault: '' @ vault_error_text err), p2)
            | (Inr credentials, p2) \<Rightarrow>
                (Inr (credentials, cfg),
                 p2\<lparr>cache := Set d (cache p2) now password (VaultPath cfg) credentials\<rparr>))"
  using assms by (simp add: authenticateAndGetCredentials_def SetToken_def Let_def)

text \<open>
  C3, as amended. On a cache miss the resolver sends one read to the secret store, under
  the token of the request. When the record that comes back has no string-valued
  \<open>username\<close>, or no string-valued \<open>password\<close>, the resolver fails and the cache is left
  as it was. When both are there, empty or not, it succeeds: the e-mail is the string
  under \<open>email\<close> if there is one and empty otherwise, and the credentials are returned
  and are in the cache.
\<close>

theorem resolve_on_miss:
  assumes "BasicAuth d r = Some (username, password)"
    and "ParseUsername username = Inr cfg"
    and "Get d (cache p) now password (VaultPath cfg) = None"
    and "kvGet d password (VaultPath cfg) = Inr (Some (Some data))"
  shows "vaultReads (snd (authenticateAndGetCredentials d now r p))
           = vaultReads p @ [(password, VaultPath cfg)]
       \<and> (stringField data ''username'' = None \<longrightarrow>
             fst (authenticateAndGetCredentials d now r p) =
               Inl ''failed to retrieve credentials from Vault: username not found in secret''
             \<and> cache (snd (authenticateAndGetCredentials d now r p)) = cache p)
       \<and> (stringField data ''username'' \<noteq> None \<and> stringField data ''password'' = None \<longrightarrow>
             fst (authenticateAndGetCredentials d now r p) =
               Inl ''failed to retrieve credentials from Vault: password not found in secret''
             \<and> cache (snd (authenticateAndGetCredentials d now r p)) = cache p)
       \<and> (stringField data ''username'' = Some u \<and> stringField data ''password'' = Some pw \<longrightarrow>
             fst (authenticateAndGetCredentials d now r p) =
               Inr (\<lparr>Username = u, Password = pw,
                     Email = (case stringField data ''email'' of None \<Rightarrow> [] | Some e \<Rightarrow> e)\<rparr>,
                    cfg)
             \<and> Get d (cache (snd (authenticateAndGetCredentials d now r p))) now password
                  (VaultPath cfg) =
               Some \<lparr>Username = u, Password = pw,
                     Email = (case stringField data ''email'' of None \<Rightarrow> [] | Some e \<Rightarrow> e)\<rparr>)"
proof -
  let ?p1 = "SetToken p password"
  let ?g = "GetCredentials d ?p1 (VaultPath cfg)"
  have tok: "vaultToken ?p1 = password" "vaultReads ?p1 = vaultReads p" "cache ?p1 = cache p"
    by (simp_all add: SetToken_def)
  have a: "authenticateAndGetCredentials d now r p =
      (case ?g of
         (Inl err, p2) \<Rightarrow>
           (Inl (''failed to retrieve credentials from Vault: '' @ vault_error_text err), p2)
       | (Inr credentials, p2) \<Rightarrow>
           (Inr (credentials, cfg),
            p2\<lparr>cache := Set d (cache p2) now password (VaultPath cfg) credentials\<rparr>))"
    using authenticate_on_miss [OF assms(1,2,3)] .
  have reads: "vaultReads (snd ?g) = vaultReads p @ [(password, VaultPath cfg)]"
    and same: "cache (snd ?g) = cache p"
    using GetCredentials_reads [of d ?p1 "VaultPath cfg"] by (simp_all add: tok)
  have res: "fst ?g =
      (case stringField data ''username'' of
         None \<Rightarrow> Inl UsernameNotFound
       | Some u \<Rightarrow>
           (case stringField data ''password'' of
              None \<Rightarrow> Inl PasswordNotFound
            | Some pw \<Rightarrow>
                Inr \<lparr>Username = u, Password = pw,
                     Email = (case stringField data ''email'' of None \<Rightarrow> [] | Some e \<Rightarrow> e)\<rparr>))"
    using GetCredentials_data [of d ?p1 "VaultPath cfg" data] assms(4) by (simp add: tok)
  obtain g1 g2 where g: "?g = (g1, g2)" by (cases ?g)
  have g1: "g1 = fst ?g" and g2: "g2 = snd ?g" using g by simp_all
  show ?thesis
    unfolding a g
    using reads same res Get_Set_same [of d "cache g2" now password "VaultPath cfg"]
    unfolding g1 [symmetric] g2 [symmetric]
    by (auto simp: vault_error_text_def split: sum.splits option.splits)
qed

text \<open>The example request on a cold cache.\<close>

theorem resolve_on_miss_witness:
  "vaultReads (snd (authenticateAndGetCredentials exampleDeps 1000 basicRequest NewProxyServer))
     = [(''tok'', ''docker-hub'')]
   \<and> fst (authenticateAndGetCredentials exampleDeps 1000 basicRequest NewProxyServer) =
       Inr (\<lparr>Username = ''alice'', Password = ''s3cret'', Email = []\<rparr>,
            \<lparr>Type = ''docker'', VaultPath = ''docker-hub'',
             RegistryURL = ''registry.hub.docker.com''\<rparr>)"
proof -
  let ?cfg = "\<lparr>Type = ''docker'', VaultPath = ''docker-hub'',
               RegistryURL = ''registry.hub.docker.com''\<rparr>"
  let ?data = "[''username'' \<mapsto> VString ''alice'', ''password'' \<mapsto> VString ''s3cret'']"
  have 1: "BasicAuth exampleDeps basicRequest =
             Some (''docker;docker-hub;registry.hub.docker.com'', ''tok'')"
    by (simp add: BasicAuth_def HeaderGet_def basicRequest_def exampleDeps_def
        exampleBasic_def Let_def)
  have 2: "ParseUsername ''docker;docker-hub;registry.hub.docker.com'' = Inr ?cfg"
    by code_simp
  have 3: "Get exampleDeps (cache NewProxyServer) 1000 ''tok'' (VaultPath ?cfg) = None"
    by (simp add: Get_def cache_Get_def NewProxyServer_def NewCredentialCache_def
        cache_New_def Let_def)
  have 4: "kvGet exampleDeps ''tok'' (VaultPath ?cfg) = Inr (Some (Some ?data))"
    by (simp add: exampleDeps_def)
  have 5: "stringField ?data ''username'' = Some ''alice''"
    "stringField ?data ''password'' = Some ''s3cret''"
    "stringField ?data ''email'' = None"
    by (simp_all add: stringField_def)
  show ?thesis
    using resolve_on_miss [OF 1 2 3 4, where u = "''alice''" and pw = "''s3cret''"] 5
    by (simp add: NewProxyServer_def)
qed

text \<open>
  C3 as stated asks for a failure when the user name is empty. A secret whose
  \<open>username\<close> is the empty string is accepted: the resolver succeeds and returns it.
\<close>

theorem resolve_empty_username_counterexample:
  "fst (authenticateAndGetCredentials
          (exampleDeps\<lparr>kvGet := (\<lambda>token path.
              Inr (Some (Some [''username'' \<mapsto> VString [],
                               ''password'' \<mapsto> VString ''s3cret''])))\<rparr>)
          1000 basicRequest NewProxyServer)
     = Inr (\<lparr>Username = [], Password = ''s3cret'', Email = []\<rparr>,
            \<lparr>Type = ''docker'', VaultPath = ''docker-hub'',
             RegistryURL = ''registry.hub.docker.com''\<rparr>)"
  by code_simp

subsection \<open>Forwarding\<close>

lemma handler_bearer:
  assumes "ctxBearer r = Some b"
  shows "handlerOf rt d now r w p =
           (case proxyBearerRequest d w r b (targetOf rt r) of
              (w1, Some err) \<Rightarrow>
                (http_Error w1 (''failed to proxy request: '' @ err) StatusInternalServerError, p)
            | (w1, None) \<Rightarrow> (w1, p))"
  using assms
  by (cases rt)
    (auto simp: handlerOf_def targetOf_def GetCatalog_def GetTags_def GetManifest_def
      GetBlob_def Let_def split: prod.splits option.splits sum.splits)

lemma handler_basic:
  assumes "ctxBearer r = None"
  shows "handlerOf rt d now r w p =
           (case authenticateAndGetCredentials d now r p of
              (Inl err, p1) \<Rightarrow> (http_Error w err StatusUnauthorized, p1)
            | (Inr (credentials, registryConfig), p1) \<Rightarrow>
                (case proxyRequest d w r credentials registryConfig (targetOf rt r) of
                   (w1, Some err) \<Rightarrow>
                     (http_Error w1 (''failed to proxy request: '' @ err)
                        StatusInternalServerError, p1)
                 | (w1, None) \<Rightarrow> (w1, p1)))"
  using assms
  by (cases rt)
    (auto simp: handlerOf_def targetOf_def GetCatalog_def GetTags_def GetManifest_def
      GetBlob_def Let_def split: prod.splits option.splits sum.splits)

lemma bearer_handler_client:
  assumes "ctxBearer r = Some b"
    and "url =
           (if \<not> HasPrefix (bearer_RegistryURL b) ''http://''
               \<and> \<not> HasPrefix (bearer_RegistryURL b) ''https://''
            then ''https://'' @ bearer_RegistryURL b else bearer_RegistryURL b)
           @ ''/v2'' @ targetOf rt r @ (if RawQuery r \<noteq> [] then ''?'' @ RawQuery r else [])"
    and "q = \<lparr>pr_Method = Method r, pr_URL = url, pr_Header = Header r, pr_Body = Body r\<rparr>"
  shows "handlerOf rt d now r w p =
     (case newRequestErr d (Method r) url of
        Some e \<Rightarrow>
          (http_Error w (''failed to proxy request: failed to create proxy request: '' @ e)
             StatusInternalServerError, p)
      | None \<Rightarrow>
          (case clientDo d q of
             Inl err \<Rightarrow>
               (http_Error w (''failed to proxy request: failed to forward request: '' @ err)
                  StatusInternalServerError, p)
           | Inr resp \<Rightarrow>
               (let w3 = Write (WriteHeader (w\<lparr>wHeader := wHeader w ++ RespHeader resp\<rparr>)
                            (StatusCode resp)) (RespBody resp)
                in case CopyErr resp of
                     None \<Rightarrow> (w3, p)
                   | Some e \<Rightarrow>
                       (http_Error w3
                          (''failed to proxy request: failed to copy response body: '' @ e)
                          StatusInternalServerError, p))))"
proof -
  have u: "targetURL (bearer_RegistryURL b) (targetOf rt r) r = url"
    by (simp add: targetURL_def Let_def assms(2))
  show ?thesis
  proof (cases "newRequestErr d (Method r) url")
    case (Some e)
    then show ?thesis
      unfolding handler_bearer [OF assms(1)]
      by (simp add: proxyBearerRequest_def proxyBearerRequest_build_def u Let_def)
  next
    case None
    then have "proxyBearerRequest d w r b (targetOf rt r) = forward d w q"
      by (simp add: proxyBearerRequest_def proxyBearerRequest_build_def u Let_def assms(3))
    then show ?thesis
      unfolding handler_bearer [OF assms(1)]
      using None by (simp add: forward_def Let_def split: sum.splits option.splits)
  qed
qed

lemma basic_handler_client:
  assumes "ctxBearer r = None"
    and "authenticateAndGetCredentials d now r p = (Inr (creds, cfg), p1)"
    and "url =
           (if \<not> HasPrefix (RegistryURL cfg) ''http://''
               \<and> \<not> HasPrefix (RegistryURL cfg) ''https://''
            then ''https://'' @ RegistryURL cfg else RegistryURL cfg)
           @ ''/v2'' @ targetOf rt r @ (if RawQuery r \<noteq> [] then ''?'' @ RawQuery r else [])"
    and "q = \<lparr>pr_Method = Method r, pr_URL = url,
              pr_Header = (\<lambda>name. if name = ''Authorization''
                   then Some [''Basic '' @ base64 (Username creds @ '':'' @ Password creds)]
                   else Header r name),
              pr_Body = Body r\<rparr>"
  shows "handlerOf rt d now r w p =
     (case newRequestErr d (Method r) url of
        Some e \<Rightarrow>
          (http_Error w (''failed to proxy request: failed to create proxy request: '' @ e)
             StatusInternalServerError, p1)
      | None \<Rightarrow>
          (case clientDo d q of
             Inl err \<Rightarrow>
               (http_Error w (''failed to proxy request: failed to forward request: '' @ err)
                  StatusInternalServerError, p1)
           | Inr resp \<Rightarrow>
               (let w3 = Write (WriteHeader (w\<lparr>wHeader := wHeader w ++ RespHeader resp\<rparr>)
                            (StatusCode resp)) (RespBody resp)
                in case CopyErr resp of
                     None \<Rightarrow> (w3, p1)
                   | Some e \<Rightarrow>
                       (http_Error w3
                          (''failed to proxy request: failed to copy response body: '' @ e)
                          StatusInternalServerError, p1))))"
proof -
  have u: "targetURL (RegistryURL cfg) (targetOf rt r) r = url"
    by (simp add: targetURL_def Let_def assms(3))
  have a: "handlerOf rt d now r w p =
      (case proxyRequest d w r creds cfg (targetOf rt r) of
         (w1, Some err) \<Rightarrow>
           (http_Error w1 (''failed to proxy request: '' @ err) StatusInternalServerError, p1)
       | (w1, None) \<Rightarrow> (w1, p1))"
    unfolding handler_basic [OF assms(1)] assms(2)
    by (simp split: prod.splits option.splits)
  show ?thesis
  proof (cases "newRequestErr d (Method r) url")
    case (Some e)
    then show ?thesis
      unfolding a by (simp add: proxyRequest_def proxyRequest_build_def u Let_def)
  next
    case None
    then have "proxyRequest_build d r creds cfg (targetOf rt r) = Inr q"
      by (simp add: proxyRequest_build_def SetBasicAuth_def u Let_def assms(4) fun_eq_iff)
    then have "proxyRequest d w r creds cfg (targetOf rt r) = forward d w q"
      by (simp add: proxyRequest_def)
    then show ?thesis
      unfolding a
      using None by (simp add: forward_def Let_def split: sum.splits option.splits)
  qed
qed

lemma middleware_bearer:
  assumes "Path r \<noteq> ''/v2/''"
    and "HeaderGet (Header r) ''Authorization'' = ''Bearer '' @ tok"
    and "tok \<noteq> []"
    and "host =
           (if HeaderGet (Header r) ''X-Registry-URL'' \<noteq> []
            then HeaderGet (Header r) ''X-Registry-URL''
            else (case readCookie d (Header r) ''registry-url'' of
                    Some v \<Rightarrow> if v \<noteq> [] then v else ''registry-1.docker.io''
                  | None \<Rightarrow> ''registry-1.docker.io''))"
  shows "DockerRegistryAuth d m nxt r w s =
           nxt (r\<lparr>ctxBearer := Some \<lparr>bearer_Token = tok, bearer_RegistryURL = host\<rparr>\<rparr>) w s"
proof -
  have pre: "HasPrefix (''Bearer '' @ tok) ''Bearer ''"
    by (simp add: HasPrefix_def)
  have trim: "TrimPrefix (''Bearer '' @ tok) ''Bearer '' = tok"
    by (simp add: TrimPrefix_def HasPrefix_def)
  have "DockerRegistryAuth d m nxt r w s = handleBearerAuth d m nxt r w s"
    using assms(1,2) pre by (simp add: DockerRegistryAuth_def Let_def)
  also have "\<dots> =
      nxt (r\<lparr>ctxBearer := Some \<lparr>bearer_Token = tok, bearer_RegistryURL = host\<rparr>\<rparr>) w s"
    using assms(2,3) trim
    by (simp add: handleBearerAuth_def extractRegistryURL_def Let_def assms(4)
        split: option.splits)
  finally show ?thesis .
qed

text \<open>
  C4. Take a request other than the version check whose \<open>Authorization\<close> header is
  \<open>Bearer\<close> followed by a non-empty token. Let \<open>host\<close> be its \<open>X-Registry-URL\<close> header
  if that is non-empty, else its \<open>registry-url\<close> cookie if there is one and it is
  non-empty, else \<open>registry-1.docker.io\<close>; let \<open>url\<close> be \<open>host\<close> (with \<open>https://\<close> in
  front when it has no scheme), \<open>/v2\<close>, the path the handler forwards to and the query;
  and let \<open>q\<close> be the request with the inbound method, that URL, the inbound headers and
  the inbound body. Then the middleware hands the request to the handler with the Bearer
  context of token and \<open>host\<close>; each of the four handlers behind the middleware leaves
  the state of the server as it was (no read is sent to the secret store, the token of
  the client and the cache are untouched); and unless \<open>http.NewRequest\<close> rejects the
  URL, the reply is what comes of handing \<open>q\<close> to the HTTP client: \<open>q\<close> carries the
  inbound headers, the \<open>Authorization\<close> header with the bearer token among them.
\<close>

theorem bearer_pass_through:
  assumes "Path r \<noteq> ''/v2/''"
    and "HeaderGet (Header r) ''Authorization'' = ''Bearer '' @ tok"
    and "tok \<noteq> []"
    and "host =
           (if HeaderGet (Header r) ''X-Registry-URL'' \<noteq> []
            then HeaderGet (Header r) ''X-Registry-URL''
            else (case readCookie d (Header r) ''registry-url'' of
                    Some v \<Rightarrow> if v \<noteq> [] then v else ''registry-1.docker.io''
                  | None \<Rightarrow> ''registry-1.docker.io''))"
    and "url =
           (if \<not> HasPrefix host ''http://'' \<and> \<not> HasPrefix host ''https://''
            then ''https://'' @ host else host)
           @ ''/v2'' @ targetOf rt r @ (if RawQuery r \<noteq> [] then ''?'' @ RawQuery r else [])"
    and "q = \<lparr>pr_Method = Method r, pr_URL = url, pr_Header = Header r, pr_Body = Body r\<rparr>"
  shows "DockerRegistryAuth d m nxt r w s =
           nxt (r\<lparr>ctxBearer := Some \<lparr>bearer_Token = tok, bearer_RegistryURL = host\<rparr>\<rparr>) w s
       \<and> snd (DockerRegistryAuth d m (handlerOf rt d now) r w p) = p
       \<and> HeaderGet (pr_Header q) ''Authorization'' = ''Bearer '' @ tok
       \<and> pr_Header q ''Authorization'' = Header r ''Authorization''
       \<and> DockerRegistryAuth d m (handlerOf rt d now) r w p =
           (case newRequestErr d (Method r) url of
              Some e \<Rightarrow>
                (http_Error w (''failed to proxy request: failed to create proxy request: '' @ e)
                   StatusInternalServerError, p)
            | None \<Rightarrow>
                (case clientDo d q of
                   Inl err \<Rightarrow>
                     (http_Error w
                        (''failed to proxy request: failed to forward request: '' @ err)
                        StatusInternalServerError, p)
                 | Inr resp \<Rightarrow>
                     (let w3 = Write (WriteHeader (w\<lparr>wHeader := wHeader w ++ RespHeader resp\<rparr>)
                                  (StatusCode resp)) (RespBody resp)
                      in case CopyErr resp of
                           None \<Rightarrow> (w3, p)
                         | Some e \<Rightarrow>
                             (http_Error w3
                                (''failed to proxy request: failed to copy response body: '' @ e)
                                StatusInternalServerError, p))))"
proof -
  let ?b = "\<lparr>bearer_Token = tok, bearer_RegistryURL = host\<rparr>"
  let ?r = "r\<lparr>ctxBearer := Some ?b\<rparr>"
  have mw: "DockerRegistryAuth d m nxt r w s = nxt ?r w s"
    using middleware_bearer [OF assms(1,2,3,4)] .
  have mwh: "DockerRegistryAuth d m (handlerOf rt d now) r w p = handlerOf rt d now ?r w p"
    using middleware_bearer [OF assms(1,2,3,4)] .
  have t: "targetOf rt ?r = targetOf rt r"
    by (cases rt) (simp_all add: targetOf_def)
  have 2: "handlerOf rt d now ?r w p =
      (case newRequestErr d (Method r) url of
         Some e \<Rightarrow>
           (http_Error w (''failed to proxy request: failed to create proxy request: '' @ e)
              StatusInternalServerError, p)
       | None \<Rightarrow>
           (case clientDo d q of
              Inl err \<Rightarrow>
                (http_Error w (''failed to proxy request: failed to forward request: '' @ err)
                   StatusInternalServerError, p)
            | Inr resp \<Rightarrow>
                (let w3 = Write (WriteHeader (w\<lparr>wHeader := wHeader w ++ RespHeader resp\<rparr>)
                             (StatusCode resp)) (RespBody resp)
                 in case CopyErr resp of
                      None \<Rightarrow> (w3, p)
                    | Some e \<Rightarrow>
                        (http_Error w3
                           (''failed to proxy request: failed to copy response body: '' @ e)
                           StatusInternalServerError, p))))"
    using bearer_handler_client [where r = ?r and b = ?b and url = url and rt = rt
        and q = q and d = d and now = now and w = w and p = p]
    by (simp add: t assms(5,6))
  have 3: "snd (handlerOf rt d now ?r w p) = p"
    unfolding 2 by (simp add: Let_def split: option.splits sum.splits)
  have 4: "HeaderGet (pr_Header q) ''Authorization'' = ''Bearer '' @ tok"
    "pr_Header q ''Authorization'' = Header r ''Authorization''"
    using assms(2) by (simp_all add: assms(6))
  show ?thesis
    unfolding mw mwh by (intro conjI refl 2 3 4)
qed

text \<open>
  The example Bearer request behind the middleware, with the echoing upstream: the
  catalog handler leaves the server as it was, and the reply shows that the upstream
  received the URL on \<open>my.registry.example\<close> and the bearer header as it came.
\<close>

theorem bearer_pass_through_witness:
  "snd (DockerRegistryAuth echoDeps exampleMiddleware (handlerOf Catalog echoDeps 1000)
          bearerRequest newWriter NewProxyServer) = NewProxyServer
   \<and> wBody (fst (DockerRegistryAuth echoDeps exampleMiddleware (handlerOf Catalog echoDeps 1000)
          bearerRequest newWriter NewProxyServer))
       = ''GET https://my.registry.example/v2/_catalog?n=10''
   \<and> wSent (fst (DockerRegistryAuth echoDeps exampleMiddleware (handlerOf Catalog echoDeps 1000)
          bearerRequest newWriter NewProxyServer)) ''Authorization''
       = Some [''Bearer abc.def'']"
proof -
  let ?url = "''https://my.registry.example/v2/_catalog?n=10''"
  let ?q = "\<lparr>pr_Method = Method bearerRequest, pr_URL = ?url,
             pr_Header = Header bearerRequest, pr_Body = Body bearerRequest\<rparr>"
  have h: "Path bearerRequest \<noteq> ''/v2/''"
    "HeaderGet (Header bearerRequest) ''Authorization'' = ''Bearer '' @ ''abc.def''"
    "''abc.def'' \<noteq> []"
    "''my.registry.example'' =
       (if HeaderGet (Header bearerRequest) ''X-Registry-URL'' \<noteq> []
        then HeaderGet (Header bearerRequest) ''X-Registry-URL''
        else (case readCookie echoDeps (Header bearerRequest) ''registry-url'' of
                Some v \<Rightarrow> if v \<noteq> [] then v else ''registry-1.docker.io''
              | None \<Rightarrow> ''registry-1.docker.io''))"
    "?url =
       (if \<not> HasPrefix ''my.registry.example'' ''http://''
           \<and> \<not> HasPrefix ''my.registry.example'' ''https://''
        then ''https://'' @ ''my.registry.example'' else ''my.registry.example'')
       @ ''/v2'' @ targetOf Catalog bearerRequest
       @ (if RawQuery bearerRequest \<noteq> [] then ''?'' @ RawQuery bearerRequest else [])"
    "?q = \<lparr>pr_Method = Method bearerRequest, pr_URL = ?url,
            pr_Header = Header bearerRequest, pr_Body = Body bearerRequest\<rparr>"
    by (simp_all add: bearerRequest_def HeaderGet_def HasPrefix_def targetOf_def)
  have n: "newRequestErr echoDeps (Method bearerRequest) ?url = None"
    by (simp add: echoDeps_def exampleDeps_def)
  have c: "clientDo echoDeps ?q =
      Inr \<lparr>StatusCode = 200, RespHeader = Header bearerRequest,
           RespBody = ''GET https://my.registry.example/v2/_catalog?n=10'', CopyErr = None\<rparr>"
    by (simp add: echoDeps_def exampleDeps_def bearerRequest_def)
  have eq: "DockerRegistryAuth echoDeps exampleMiddleware (handlerOf Catalog echoDeps 1000)
        bearerRequest newWriter NewProxyServer =
      (Write (WriteHeader (newWriter\<lparr>wHeader := wHeader newWriter ++ Header bearerRequest\<rparr>)
                200) ''GET https://my.registry.example/v2/_catalog?n=10'', NewProxyServer)"
    using bearer_pass_through [OF h, where m = exampleMiddleware and w = newWriter
        and p = NewProxyServer and now = 1000
        and nxt = "\<lambda>r w s. (w, s)" and s = "()"]
    by (simp add: n c Let_def)
  show ?thesis
    unfolding eq
    by (simp add: Write_def WriteHeader_def newWriter_def bearerRequest_def map_add_def)
qed

text \<open>
  C8. In Basic mode, once the credentials are resolved, the request a handler hands to
  the HTTP client (unless \<open>http.NewRequest\<close> rejects the URL) has the inbound method,
  body and every inbound header other than \<open>Authorization\<close> unchanged, and as its
  \<open>Authorization\<close> header the single value \<open>Basic\<close> followed by the base64 of the
  resolved user name, a colon and the resolved password; the reply is what comes of that
  call. In pass-through mode the request handed to the HTTP client has all inbound
  headers unchanged, \<open>Authorization\<close> included.
\<close>

theorem forwarded_headers:
  "(ctxBearer r = None
      \<and> authenticateAndGetCredentials d now r p = (Inr (creds, cfg), p1)
      \<and> url =
           (if \<not> HasPrefix (RegistryURL cfg) ''http://''
               \<and> \<not> HasPrefix (RegistryURL cfg) ''https://''
            then ''https://'' @ RegistryURL cfg else RegistryURL cfg)
           @ ''/v2'' @ targetOf rt r @ (if RawQuery r \<noteq> [] then ''?'' @ RawQuery r else [])
      \<and> newRequestErr d (Method r) url = None
      \<and> q = \<lparr>pr_Method = Method r, pr_URL = url,
               pr_Header = (\<lambda>name. if name = ''Authorization''
                    then Some [''Basic '' @ base64 (Username creds @ '':'' @ Password creds)]
                    else Header r name),
               pr_Body = Body r\<rparr>
    \<longrightarrow> handlerOf rt d now r w p =
          (case clientDo d q of
             Inl err \<Rightarrow>
               (http_Error w (''failed to proxy request: failed to forward request: '' @ err)
                  StatusInternalServerError, p1)
           | Inr resp \<Rightarrow>
               (let w3 = Write (WriteHeader (w\<lparr>wHeader := wHeader w ++ RespHeader resp\<rparr>)
                            (StatusCode resp)) (RespBody resp)
                in case CopyErr resp of
                     None \<Rightarrow> (w3, p1)
                   | Some e \<Rightarrow>
                       (http_Error w3
                          (''failed to proxy request: failed to copy response body: '' @ e)
                          StatusInternalServerError, p1))))
   \<and> (ctxBearer r' = Some b
      \<and> url' =
           (if \<not> HasPrefix (bearer_RegistryURL b) ''http://''
               \<and> \<not> HasPrefix (bearer_RegistryURL b) ''https://''
            then ''https://'' @ bearer_RegistryURL b else bearer_RegistryURL b)
           @ ''/v2'' @ targetOf rt r' @ (if RawQuery r' \<noteq> [] then ''?'' @ RawQuery r' else [])
      \<and> newRequestErr d (Method r') url' = None
      \<and> q' = \<lparr>pr_Method = Method r', pr_URL = url', pr_Header = Header r',
                pr_Body = Body r'\<rparr>
    \<longrightarrow> handlerOf rt d now r' w p =
          (case clientDo d q' of
             Inl err \<Rightarrow>
               (http_Error w (''failed to proxy request: failed to forward request: '' @ err)
                  StatusInternalServerError, p)
           | Inr resp \<Rightarrow>
               (let w3 = Write (WriteHeader (w\<lparr>wHeader := wHeader w ++ RespHeader resp\<rparr>)
                            (StatusCode resp)) (RespBody resp)
                in case CopyErr resp of
                     None \<Rightarrow> (w3, p)
                   | Some e \<Rightarrow>
                       (http_Error w3
                          (''failed to proxy request: failed to copy response body: '' @ e)
                          StatusInternalServerError, p))))"
proof (intro conjI impI)
  assume a: "ctxBearer r = None
      \<and> authenticateAndGetCredentials d now r p = (Inr (creds, cfg), p1)
      \<and> url =
           (if \<not> HasPrefix (RegistryURL cfg) ''http://''
               \<and> \<not> HasPrefix (RegistryURL cfg) ''https://''
            then ''https://'' @ RegistryURL cfg else RegistryURL cfg)
           @ ''/v2'' @ targetOf rt r @ (if RawQuery r \<noteq> [] then ''?'' @ RawQuery r else [])
      \<and> newRequestErr d (Method r) url = None
      \<and> q = \<lparr>pr_Method = Method r, pr_URL = url,
               pr_Header = (\<lambda>name. if name = ''Authorization''
                    then Some [''Basic '' @ base64 (Username creds @ '':'' @ Password creds)]
                    else Header r name),
               pr_Body = Body r\<rparr>"
  then have n: "newRequestErr d (Method r) url = None" by blast
  from a have f: "ctxBearer r = None"
    "authenticateAndGetCredentials d now r p = (Inr (creds, cfg), p1)"
    by blast+
  from a have g: "url =
           (if \<not> HasPrefix (RegistryURL cfg) ''http://''
               \<and> \<not> HasPrefix (RegistryURL cfg) ''https://''
            then ''https://'' @ RegistryURL cfg else RegistryURL cfg)
           @ ''/v2'' @ targetOf rt r @ (if RawQuery r \<noteq> [] then ''?'' @ RawQuery r else [])"
    "q = \<lparr>pr_Method = Method r, pr_URL = url,
               pr_Header = (\<lambda>name. if name = ''Authorization''
                    then Some [''Basic '' @ base64 (Username creds @ '':'' @ Password creds)]
                    else Header r name),
               pr_Body = Body r\<rparr>"
    by blast+
  show "handlerOf rt d now r w p =
          (case clientDo d q of
             Inl err \<Rightarrow>
               (http_Error w (''failed to proxy request: failed to forward request: '' @ err)
                  StatusInternalServerError, p1)
           | Inr resp \<Rightarrow>
               (let w3 = Write (WriteHeader (w\<lparr>wHeader := wHeader w ++ RespHeader resp\<rparr>)
                            (StatusCode resp)) (RespBody resp)
                in case CopyErr resp of
                     None \<Rightarrow> (w3, p1)
                   | Some e \<Rightarrow>
                       (http_Error w3
                          (''failed to proxy request: failed to copy response body: '' @ e)
                          StatusInternalServerError, p1)))"
    unfolding basic_handler_client [OF f g] by (simp add: n)
next
  assume a: "ctxBearer r' = Some b
      \<and> url' =
           (if \<not> HasPrefix (bearer_RegistryURL b) ''http://''
               \<and> \<not> HasPrefix (bearer_RegistryURL b) ''https://''
            then ''https://'' @ bearer_RegistryURL b else bearer_RegistryURL b)
           @ ''/v2'' @ targetOf rt r' @ (if RawQuery r' \<noteq> [] then ''?'' @ RawQuery r' else [])
      \<and> newRequestErr d (Method r') url' = None
      \<and> q' = \<lparr>pr_Method = Method r', pr_URL = url', pr_Header = Header r',
                pr_Body = Body r'\<rparr>"
  then have n: "newRequestErr d (Method r') url' = None" by blast
  from a have f: "ctxBearer r' = Some b" by blast
  from a have g: "url' =
           (if \<not> HasPrefix (bearer_RegistryURL b) ''http://''
               \<and> \<not> HasPrefix (bearer_RegistryURL b) ''https://''
            then ''https://'' @ bearer_RegistryURL b else bearer_RegistryURL b)
           @ ''/v2'' @ targetOf rt r' @ (if RawQuery r' \<noteq> [] then ''?'' @ RawQuery r' else [])"
    "q' = \<lparr>pr_Method = Method r', pr_URL = url', pr_Header = Header r',
                pr_Body = Body r'\<rparr>"
    by blast+
  show "handlerOf rt d now r' w p =
          (case clientDo d q' of
             Inl err \<Rightarrow>
               (http_Error w (''failed to proxy request: failed to forward request: '' @ err)
                  StatusInternalServerError, p)
           | Inr resp \<Rightarrow>
               (let w3 = Write (WriteHeader (w\<lparr>wHeader := wHeader w ++ RespHeader resp\<rparr>)
                            (StatusCode resp)) (RespBody resp)
                in case CopyErr resp of
                     None \<Rightarrow> (w3, p)
                   | Some e \<Rightarrow>
                       (http_Error w3
                          (''failed to proxy request: failed to copy response body: '' @ e)
                          StatusInternalServerError, p)))"
    unfolding bearer_handler_client [OF f g] by (simp add: n)
qed

text \<open>
  The example Basic and Bearer requests at the catalog handler, with the echoing
  upstream: the replies show that the upstream received the \<open>Accept\<close> header as it
  came and the real credentials in place of the locator in Basic mode, and the bearer
  header as it came in pass-through mode.
\<close>

theorem forwarded_headers_witness:
  "wBody (fst (handlerOf Catalog echoDeps 1000 basicRequest newWriter NewProxyServer))
     = ''GET https://registry.hub.docker.com/v2/_catalog''
   \<and> wSent (fst (handlerOf Catalog echoDeps 1000 basicRequest newWriter NewProxyServer))
       ''Authorization'' = Some [''Basic YWxpY2U6czNjcmV0'']
   \<and> wSent (fst (handlerOf Catalog echoDeps 1000 basicRequest newWriter NewProxyServer))
       ''Accept'' = Some [''application/json'']
   \<and> wSent (fst (handlerOf Catalog echoDeps 1000
          (bearerRequest\<lparr>ctxBearer := Some \<lparr>bearer_Token = ''abc.def'',
               bearer_RegistryURL = ''my.registry.example''\<rparr>\<rparr>) newWriter NewProxyServer))
       ''Authorization'' = Some [''Bearer abc.def'']"
proof -
  let ?creds = "\<lparr>Username = ''alice'', Password = ''s3cret'', Email = []\<rparr>"
  let ?cfg = "\<lparr>Type = ''docker'', VaultPath = ''docker-hub'',
               RegistryURL = ''registry.hub.docker.com''\<rparr>"
  let ?b = "\<lparr>bearer_Token = ''abc.def'', bearer_RegistryURL = ''my.registry.example''\<rparr>"
  let ?rb = "bearerRequest\<lparr>ctxBearer := Some ?b\<rparr>"
  let ?p1 = "snd (authenticateAndGetCredentials echoDeps 1000 basicRequest NewProxyServer)"
  let ?url = "(if \<not> HasPrefix (RegistryURL ?cfg) ''http://''
                  \<and> \<not> HasPrefix (RegistryURL ?cfg) ''https://''
               then ''https://'' @ RegistryURL ?cfg else RegistryURL ?cfg)
              @ ''/v2'' @ targetOf Catalog basicRequest
              @ (if RawQuery basicRequest \<noteq> [] then ''?'' @ RawQuery basicRequest else [])"
  let ?q = "\<lparr>pr_Method = Method basicRequest, pr_URL = ?url,
             pr_Header = (\<lambda>name. if name = ''Authorization''
                  then Some [''Basic '' @ base64 (Username ?creds @ '':'' @ Password ?creds)]
                  else Header basicRequest name),
             pr_Body = Body basicRequest\<rparr>"
  let ?url' = "(if \<not> HasPrefix (bearer_RegistryURL ?b) ''http://''
                   \<and> \<not> HasPrefix (bearer_RegistryURL ?b) ''https://''
                then ''https://'' @ bearer_RegistryURL ?b else bearer_RegistryURL ?b)
               @ ''/v2'' @ targetOf Catalog ?rb
               @ (if RawQuery ?rb \<noteq> [] then ''?'' @ RawQuery ?rb else [])"
  let ?q' = "\<lparr>pr_Method = Method ?rb, pr_URL = ?url', pr_Header = Header ?rb,
              pr_Body = Body ?rb\<rparr>"
  have f: "fst (authenticateAndGetCredentials echoDeps 1000 basicRequest NewProxyServer)
             = Inr (?creds, ?cfg)"
    by code_simp
  have a1: "ctxBearer basicRequest = None"
    by (simp add: basicRequest_def)
  have a2: "authenticateAndGetCredentials echoDeps 1000 basicRequest NewProxyServer
              = (Inr (?creds, ?cfg), ?p1)"
    using f by (simp add: prod_eq_iff)
  have a3: "newRequestErr echoDeps (Method basicRequest) ?url = None"
    by (simp add: echoDeps_def exampleDeps_def)
  have b1: "ctxBearer ?rb = Some ?b"
    by simp
  have b3: "newRequestErr echoDeps (Method ?rb) ?url' = None"
    by (simp add: echoDeps_def exampleDeps_def)
  have e: "base64 ''alice:s3cret'' = ''YWxpY2U6czNjcmV0''"
    by code_simp
  have basic: "handlerOf Catalog echoDeps 1000 basicRequest newWriter NewProxyServer =
      (case clientDo echoDeps ?q of
         Inl err \<Rightarrow>
           (http_Error newWriter
              (''failed to proxy request: failed to forward request: '' @ err)
              StatusInternalServerError, ?p1)
       | Inr resp \<Rightarrow>
           (let w3 = Write (WriteHeader
                        (newWriter\<lparr>wHeader := wHeader newWriter ++ RespHeader resp\<rparr>)
                        (StatusCode resp)) (RespBody resp)
            in case CopyErr resp of
                 None \<Rightarrow> (w3, ?p1)
               | Some e \<Rightarrow>
                   (http_Error w3
                      (''failed to proxy request: failed to copy response body: '' @ e)
                      StatusInternalServerError, ?p1)))"
    using forwarded_headers [where r = basicRequest and d = echoDeps and now = 1000
        and p = NewProxyServer and creds = ?creds and cfg = ?cfg and ?p1.0 = ?p1
        and url = ?url and rt = Catalog and q = ?q and w = newWriter, THEN conjunct1]
      a1 a2 a3
    by blast
  have bearer: "handlerOf Catalog echoDeps 1000 ?rb newWriter NewProxyServer =
      (case clientDo echoDeps ?q' of
         Inl err \<Rightarrow>
           (http_Error newWriter
              (''failed to proxy request: failed to forward request: '' @ err)
              StatusInternalServerError, NewProxyServer)
       | Inr resp \<Rightarrow>
           (let w3 = Write (WriteHeader
                        (newWriter\<lparr>wHeader := wHeader newWriter ++ RespHeader resp\<rparr>)
                        (StatusCode resp)) (RespBody resp)
            in case CopyErr resp of
                 None \<Rightarrow> (w3, NewProxyServer)
               | Some e \<Rightarrow>
                   (http_Error w3
                      (''failed to proxy request: failed to copy response body: '' @ e)
                      StatusInternalServerError, NewProxyServer)))"
    using forwarded_headers [where r' = ?rb and d = echoDeps and now = 1000
        and p = NewProxyServer and b = ?b and url' = ?url' and rt = Catalog and q' = ?q'
        and w = newWriter, THEN conjunct2]
      b1 b3
    by blast
  have c: "clientDo echoDeps = (\<lambda>q. Inr \<lparr>StatusCode = 200, RespHeader = pr_Header q,
                                        RespBody = pr_Method q @ '' '' @ pr_URL q,
                                        CopyErr = None\<rparr>)"
    by (simp add: echoDeps_def)
  have 1: "wBody (fst (handlerOf Catalog echoDeps 1000 basicRequest newWriter NewProxyServer))
             = ''GET https://registry.hub.docker.com/v2/_catalog''"
    unfolding basic c
    by (simp add: Let_def Write_def WriteHeader_def newWriter_def basicRequest_def
        HasPrefix_def targetOf_def)
  have 2: "wSent (fst (handlerOf Catalog echoDeps 1000 basicRequest newWriter NewProxyServer))
             ''Authorization'' = Some [''Basic YWxpY2U6czNjcmV0'']"
    unfolding basic c
    using e by (simp add: Let_def Write_def WriteHeader_def newWriter_def map_add_def)
  have 3: "wSent (fst (handlerOf Catalog echoDeps 1000 basicRequest newWriter NewProxyServer))
             ''Accept'' = Some [''application/json'']"
    unfolding basic c
    by (simp add: Let_def Write_def WriteHeader_def newWriter_def map_add_def
        basicRequest_def)
  have 4: "wSent (fst (handlerOf Catalog echoDeps 1000 ?rb newWriter NewProxyServer))
             ''Authorization'' = Some [''Bearer abc.def'']"
    unfolding bearer c
    by (simp add: Let_def Write_def WriteHeader_def newWriter_def map_add_def
        bearerRequest_def)
  show ?thesis
    using 1 2 3 4 by blast
qed

subsection \<open>Error replies\<close>

lemma errorJSON_head:
  \<open>hd (errorJSON d code message) = CHR ''{''\<close>
  by (simp add: errorJSON_def)

lemma not_isErrorBody:
  assumes "body = c # rest" and "c \<noteq> CHR ''{''"
  shows "\<not> isErrorBody d body"
proof
  assume "isErrorBody d body"
  then obtain code message where "body = errorJSON d code message"
    by (auto simp: isErrorBody_def)
  then have "hd body = CHR ''{''"
    by (simp add: errorJSON_head)
  with assms show False by simp
qed

text \<open>The replies the middleware writes itself have the protocol's error body.\<close>

lemma middleware_replies_json:
  assumes "\<not> wroteHeader w"
  shows "isErrorBody d (drop (length (wBody w)) (wBody (writeErrorResponse d w code message st)))
       \<and> isErrorBody d (drop (length (wBody w)) (wBody (challengeAuth d m w r)))"
  using assms
  by (auto simp: isErrorBody_def writeErrorResponse_def challengeAuth_def Write_def
      WriteHeader_def HeaderSet_def Let_def)

text \<open>
  C9. Two error replies of the catalog handler behind the middleware, for the example
  Basic request. With an upstream that cannot be reached the reply is 500; with a
  secret store that refuses the read it is 401. Both are written by \<open>http.Error\<close>: the
  content type is plain text and the body is the error text and a newline, which is
  not a body of the shape \<open>{"errors":[{"code": ..., "message": ...}]}\<close>.
\<close>

theorem handler_errors_plain_text:
  "wStatus (fst (DockerRegistryAuth
        (exampleDeps\<lparr>clientDo := (\<lambda>q. Inl ''dial tcp: connection refused'')\<rparr>)
        exampleMiddleware
        (GetCatalog (exampleDeps\<lparr>clientDo := (\<lambda>q. Inl ''dial tcp: connection refused'')\<rparr>) 1000)
        basicRequest newWriter NewProxyServer)) = 500
   \<and> wBody (fst (DockerRegistryAuth
        (exampleDeps\<lparr>clientDo := (\<lambda>q. Inl ''dial tcp: connection refused'')\<rparr>)
        exampleMiddleware
        (GetCatalog (exampleDeps\<lparr>clientDo := (\<lambda>q. Inl ''dial tcp: connection refused'')\<rparr>) 1000)
        basicRequest newWriter NewProxyServer))
       = ''failed to proxy request: failed to forward request: dial tcp: connection refused''
           @ [CHR 0x0A]
   \<and> \<not> isErrorBody (exampleDeps\<lparr>clientDo := (\<lambda>q. Inl ''dial tcp: connection refused'')\<rparr>)
        (wBody (fst (DockerRegistryAuth
          (exampleDeps\<lparr>clientDo := (\<lambda>q. Inl ''dial tcp: connection refused'')\<rparr>)
          exampleMiddleware
          (GetCatalog (exampleDeps\<lparr>clientDo := (\<lambda>q. Inl ''dial tcp: connection refused'')\<rparr>) 1000)
          basicRequest newWriter NewProxyServer)))
   \<and> wStatus (fst (DockerRegistryAuth
        (exampleDeps\<lparr>kvGet := (\<lambda>token path. Inl ''permission denied'')\<rparr>)
        exampleMiddleware
        (GetCatalog (exampleDeps\<lparr>kvGet := (\<lambda>token path. Inl ''permission denied'')\<rparr>) 1000)
        basicRequest newWriter NewProxyServer)) = 401
   \<and> wSent (fst (DockerRegistryAuth
        (exampleDeps\<lparr>kvGet := (\<lambda>token path. Inl ''permission denied'')\<rparr>)
        exampleMiddleware
        (GetCatalog (exampleDeps\<lparr>kvGet := (\<lambda>token path. Inl ''permission denied'')\<rparr>) 1000)
        basicRequest newWriter NewProxyServer)) ''Content-Type''
       = Some [''text/plain; charset=utf-8'']
   \<and> \<not> isErrorBody (exampleDeps\<lparr>kvGet := (\<lambda>token path. Inl ''permission denied'')\<rparr>)
        (wBody (fst (DockerRegistryAuth
          (exampleDeps\<lparr>kvGet := (\<lambda>token path. Inl ''permission denied'')\<rparr>)
          exampleMiddleware
          (GetCatalog (exampleDeps\<lparr>kvGet := (\<lambda>token path. Inl ''permission denied'')\<rparr>) 1000)
          basicRequest newWriter NewProxyServer)))"
proof -
  let ?d1 = "exampleDeps\<lparr>clientDo := (\<lambda>q. Inl ''dial tcp: connection refused'')\<rparr>"
  let ?d2 = "exampleDeps\<lparr>kvGet := (\<lambda>token path. Inl ''permission denied'')\<rparr>"
  let ?w1 = "fst (DockerRegistryAuth ?d1 exampleMiddleware (GetCatalog ?d1 1000)
                basicRequest newWriter NewProxyServer)"
  let ?w2 = "fst (DockerRegistryAuth ?d2 exampleMiddleware (GetCatalog ?d2 1000)
                basicRequest newWriter NewProxyServer)"
  have s1: "wStatus ?w1 = 500" by code_simp
  have b1: "wBody ?w1 =
      ''failed to proxy request: failed to forward request: dial tcp: connection refused''
        @ [CHR 0x0A]" by code_simp
  have s2: "wStatus ?w2 = 401" by code_simp
  have c2: "wSent ?w2 ''Content-Type'' = Some [''text/plain; charset=utf-8'']" by code_simp
  have b2: "wBody ?w2 =
      ''failed to retrieve credentials from Vault: secret not found in Vault: permission denied''
        @ [CHR 0x0A]" by code_simp
  have n1: "\<not> isErrorBody ?d1 (wBody ?w1)"
    unfolding b1 by (rule not_isErrorBody [where c = "CHR ''f''"]) simp_all
  have n2: "\<not> isErrorBody ?d2 (wBody ?w2)"
    unfolding b2 by (rule not_isErrorBody [where c = "CHR ''f''"]) simp_all
  show ?thesis
    using s1 b1 n1 s2 c2 n2 by blast
qed

end
